theory Spec2Isabelle
  imports Complex_Main "HOL-Library.Char_ord" "HOL-Library.List_Lexorder"
begin

section \<open>Python values\<close>

text \<open>
  The program (\<^verbatim>\<open>main.py\<close>) reads the provider's JSON and handles it as untyped
  Python values. The containers follow the provider's schema (an event holds a list of
  bookmakers, a bookmaker a list of markets, a market a list of outcomes, as the
  annotations \<^verbatim>\<open>List[dict]\<close> and \<^verbatim>\<open>dict\<close> of the source say); the members the
  code reads out of them are JSON scalars of any kind, because the code itself deals with
  their kind (\<^verbatim>\<open>american_int\<close>, \<^verbatim>\<open>float(...)\<close>, \<^verbatim>\<open>str(...)\<close>). A string is the
  list of its UTF-8 bytes: the program compares strings, sorts them, replaces the letter
  \<^verbatim>\<open>Z\<close> and tests an ASCII prefix, and all of these agree on bytes and on code points.

  Every exception the code can raise on such data is a value of \<open>exn\<close>; a function that
  can raise returns \<open>exn + 'a\<close>, with \<open>Inl\<close> for the exception.
\<close>

datatype exn =
  TypeError | ValueError | OverflowError | AttributeError | ValidationError
  | HTTPException nat | TransportError

text \<open>
  A Python float is a finite number, an infinity or NaN. Only comparison, \<^verbatim>\<open>abs\<close> and
  \<^verbatim>\<open>int(...)\<close> are applied to floats by the program, and these are exact, so a finite
  float is its rational value (negative zero is zero).
\<close>

datatype pyfloat = Finite rat | PosInf | NegInf | NaN

datatype pyval = PNone | PBool bool | PInt int | PFloat pyfloat | PStr string

fun fl_less :: "pyfloat \<Rightarrow> pyfloat \<Rightarrow> bool" where
  "fl_less (Finite a) (Finite b) = (a < b)"
| "fl_less (Finite a) PosInf = True"
| "fl_less NegInf (Finite b) = True"
| "fl_less NegInf PosInf = True"
| "fl_less _ _ = False"

fun fl_eq :: "pyfloat \<Rightarrow> pyfloat \<Rightarrow> bool" where
  "fl_eq (Finite a) (Finite b) = (a = b)"
| "fl_eq PosInf PosInf = True"
| "fl_eq NegInf NegInf = True"
| "fl_eq _ _ = False"

fun fl_abs :: "pyfloat \<Rightarrow> pyfloat" where
  "fl_abs (Finite a) = Finite \<bar>a\<bar>"
| "fl_abs NegInf = PosInf"
| "fl_abs PosInf = PosInf"
| "fl_abs NaN = NaN"

text \<open>\<^verbatim>\<open>int(f)\<close> of a float truncates towards zero and raises on an infinity or NaN.\<close>

fun int_of_float :: "pyfloat \<Rightarrow> exn + int" where
  "int_of_float (Finite a) = Inr (if 0 \<le> a then \<lfloor>a\<rfloor> else \<lceil>a\<rceil>)"
| "int_of_float PosInf = Inl OverflowError"
| "int_of_float NegInf = Inl OverflowError"
| "int_of_float NaN = Inl ValueError"

text \<open>
  Python's \<^verbatim>\<open>==\<close> on scalars: \<^verbatim>\<open>None\<close> equals only itself, strings equal strings, and
  booleans, integers and floats are compared by their numeric value (NaN equals nothing).
  It is the equality of \<^verbatim>\<open>x in (a, b)\<close> and of dictionary keys.
\<close>

fun py_num :: "pyval \<Rightarrow> pyfloat option" where
  "py_num (PBool b) = Some (Finite (if b then 1 else 0))"
| "py_num (PInt i) = Some (Finite (of_int i))"
| "py_num (PFloat f) = Some f"
| "py_num _ = None"

fun py_eq :: "pyval \<Rightarrow> pyval \<Rightarrow> bool" where
  "py_eq PNone PNone = True"
| "py_eq (PStr s) (PStr t) = (s = t)"
| "py_eq a b = (case py_num a of None \<Rightarrow> False
      | Some x \<Rightarrow> (case py_num b of None \<Rightarrow> False | Some y \<Rightarrow> fl_eq x y))"

text \<open>
  A JSON object with scalar members is an association list; \<open>dget\<close> is \<^verbatim>\<open>d.get(k)\<close>
  and \<open>dget_or\<close> is \<^verbatim>\<open>d.get(k, default)\<close>. The object is empty, and so false in a
  condition, when the list is.
\<close>

type_synonym pydict = "(string \<times> pyval) list"

definition dget :: "pydict \<Rightarrow> string \<Rightarrow> pyval" where
  "dget d k = (case map_of d k of None \<Rightarrow> PNone | Some v \<Rightarrow> v)"

definition dget_or :: "pydict \<Rightarrow> string \<Rightarrow> pyval \<Rightarrow> pyval" where
  "dget_or d k dflt = (case map_of d k of None \<Rightarrow> dflt | Some v \<Rightarrow> v)"

text \<open>
  A dictionary built by a comprehension \<^verbatim>\<open>{f(x): x for x in xs}\<close> and read with
  \<^verbatim>\<open>.get(k)\<close>: a later element replaces an earlier one with an equal key, so the
  lookup returns the last element of \<open>xs\<close> whose key equals \<open>k\<close>.
\<close>

definition comp_get :: "('a \<Rightarrow> pyval) \<Rightarrow> 'a list \<Rightarrow> pyval \<Rightarrow> 'a option" where
  "comp_get f xs k = find (\<lambda>x. py_eq (f x) k) (rev xs)"

section \<open>Dates and times\<close>

text \<open>
  A \<^verbatim>\<open>datetime\<close> is its date, as the proleptic Gregorian ordinal \<^verbatim>\<open>toordinal()\<close>
  (0001-01-01 is day 1), its time of day in microseconds since midnight (hour, minute,
  second and microsecond together), and its \<^verbatim>\<open>tzinfo\<close>: \<open>None\<close> for a naive value,
  otherwise the fixed offset from UTC in microseconds (the program only meets
  \<^verbatim>\<open>timezone.utc\<close> and the fixed offsets that \<^verbatim>\<open>fromisoformat\<close> builds).
  Python's dates run from 0001-01-01 to 9999-12-31: arithmetic that leaves this range
  raises \<^verbatim>\<open>OverflowError\<close>.
\<close>

record datetime =
  toordinal :: int
  micros :: int
  utcoffset :: "int option"

definition DAY :: int where
  "DAY = 86400000000"

definition MAXORDINAL :: int where
  "MAXORDINAL = 3652059"

definition valid_datetime :: "datetime \<Rightarrow> bool" where
  "valid_datetime d =
     (1 \<le> toordinal d \<and> toordinal d \<le> MAXORDINAL \<and> 0 \<le> micros d \<and> micros d < DAY)"

text \<open>The library functions whose results the program consumes but does not define.\<close>

record pylib =
  float_of_str :: "string \<Rightarrow> pyfloat option"
  float_of_big :: "int \<Rightarrow> pyfloat option"
  int_of_str :: "string \<Rightarrow> int option"
  str_of_num :: "pyval \<Rightarrow> string option"
  fromisoformat :: "string \<Rightarrow> datetime option"
  local_utcoffset :: "datetime \<Rightarrow> int"

text \<open>
  \<^item> \<open>float_of_str\<close>: \<^verbatim>\<open>float(s)\<close> of a string, \<open>None\<close> for \<^verbatim>\<open>ValueError\<close>;
  \<^item> \<open>float_of_big\<close>: \<^verbatim>\<open>float(i)\<close> of an integer beyond \<open>2^53\<close> (rounded to the
    nearest float), \<open>None\<close> for \<^verbatim>\<open>OverflowError\<close>;
  \<^item> \<open>int_of_str\<close>: \<^verbatim>\<open>int(s)\<close> of a string, \<open>None\<close> for \<^verbatim>\<open>ValueError\<close>;
  \<^item> \<open>str_of_num\<close>: what pydantic makes of a boolean or number given for a \<^verbatim>\<open>str\<close>
    field (\<open>None\<close> when it rejects the value; this differs between its versions);
  \<^item> \<open>fromisoformat\<close>: \<^verbatim>\<open>datetime.fromisoformat(s)\<close>, \<open>None\<close> for \<^verbatim>\<open>ValueError\<close>;
  \<^item> \<open>local_utcoffset\<close>: the offset of the system's local time zone, which
    \<^verbatim>\<open>astimezone\<close> gives to a naive value.
\<close>

section \<open>Configuration\<close>

definition BOOK_PRIORITY :: "string list" where
  "BOOK_PRIORITY =
     [''DraftKings'', ''FanDuel'', ''BetMGM'', ''Caesars'', ''PointsBet (US)'', ''bet365'']"

definition CACHE_TTL_SECS :: int where
  "CACHE_TTL_SECS = 45"

section \<open>The provider's events\<close>

text \<open>
  An outcome is a JSON object of scalars (\<^verbatim>\<open>name\<close>, \<^verbatim>\<open>price\<close>, \<^verbatim>\<open>point\<close>).
  A market has a \<^verbatim>\<open>key\<close> and its outcomes (a missing or null \<^verbatim>\<open>outcomes\<close> is
  the empty list: the code only tests it with \<^verbatim>\<open>not\<close>). A bookmaker has a
  \<^verbatim>\<open>title\<close> and its markets (\<^verbatim>\<open>book.get("markets", [])\<close>). An event has the two
  team names, \<^verbatim>\<open>commence_time\<close> (\<open>None\<close> when the key is missing, which the handlers
  read as \<^verbatim>\<open>""\<close>) and its bookmakers (\<^verbatim>\<open>ev.get("bookmakers", [])\<close>). A scalar
  member that is missing is \<open>PNone\<close>, as \<^verbatim>\<open>.get\<close> returns it.
\<close>

record market =
  key :: pyval
  outcomes :: "pydict list"

record bookmaker =
  title :: pyval
  markets :: "market list"

record event =
  home_team :: pyval
  away_team :: pyval
  commence_time :: "pyval option"
  bookmakers :: "bookmaker list"

section \<open>Bookmaker selection\<close>

text \<open>
  \<^verbatim>\<open>choose_book\<close>: \<open>by_name\<close> is the comprehension \<^verbatim>\<open>{b.get("title"): b for b in bookmakers}\<close>;
  \<open>scan_priority\<close> is the loop over \<^verbatim>\<open>BOOK_PRIORITY\<close>, which returns at the first name
  that is a key of \<open>by_name\<close>.
\<close>

fun scan_priority :: "bookmaker list \<Rightarrow> string list \<Rightarrow> bookmaker option" where
  "scan_priority bs [] = None"
| "scan_priority bs (n # ns) =
     (case comp_get title bs (PStr n) of
        Some b \<Rightarrow> Some b
      | None \<Rightarrow> scan_priority bs ns)"

definition choose_book :: "bookmaker list \<Rightarrow> bookmaker option" where
  "choose_book bs =
     (case bs of
        [] \<Rightarrow> None
      | b0 # _ \<Rightarrow>
          (case scan_priority bs BOOK_PRIORITY of
             Some b \<Rightarrow> Some b
           | None \<Rightarrow> Some b0))"

section \<open>Odds coercion\<close>

text \<open>
  \<^verbatim>\<open>float(x)\<close> and \<^verbatim>\<open>int(x)\<close> of a scalar. \<^verbatim>\<open>None\<close> raises \<^verbatim>\<open>TypeError\<close>; a
  boolean is 0 or 1; an integer up to \<open>2^53\<close> is a float exactly.
\<close>

fun py_float :: "pylib \<Rightarrow> pyval \<Rightarrow> exn + pyfloat" where
  "py_float L PNone = Inl TypeError"
| "py_float L (PBool b) = Inr (Finite (if b then 1 else 0))"
| "py_float L (PInt i) =
     (if \<bar>i\<bar> \<le> 2 ^ 53 then Inr (Finite (of_int i))
      else (case float_of_big L i of None \<Rightarrow> Inl OverflowError | Some f \<Rightarrow> Inr f))"
| "py_float L (PFloat f) = Inr f"
| "py_float L (PStr s) =
     (case float_of_str L s of None \<Rightarrow> Inl ValueError | Some f \<Rightarrow> Inr f)"

fun py_int :: "pylib \<Rightarrow> pyval \<Rightarrow> exn + int" where
  "py_int L PNone = Inl TypeError"
| "py_int L (PBool b) = Inr (if b then 1 else 0)"
| "py_int L (PInt i) = Inr i"
| "py_int L (PFloat f) = int_of_float f"
| "py_int L (PStr s) =
     (case int_of_str L s of None \<Rightarrow> Inl ValueError | Some i \<Rightarrow> Inr i)"

text \<open>
  \<^verbatim>\<open>american_int\<close>: \<^verbatim>\<open>int(float(x))\<close>, and on any exception of it \<^verbatim>\<open>int(x)\<close>, whose
  own exception is not caught.
\<close>

definition american_int :: "pylib \<Rightarrow> pyval \<Rightarrow> exn + int" where
  "american_int L x =
     (case py_float L x of
        Inl _ \<Rightarrow> py_int L x
      | Inr f \<Rightarrow> (case int_of_float f of Inl _ \<Rightarrow> py_int L x | Inr i \<Rightarrow> Inr i))"

section \<open>The models of the response\<close>

text \<open>
  The pydantic models. The fields \<^verbatim>\<open>home\<close>, \<^verbatim>\<open>away\<close> of \<^verbatim>\<open>Moneyline\<close> and
  \<^verbatim>\<open>line\<close> of \<^verbatim>\<open>Spread\<close> and \<^verbatim>\<open>Total\<close> carry a prefix here, since the fields of
  different records share one name space; \<^verbatim>\<open>total\<close> of \<^verbatim>\<open>Game\<close> is \<open>totals\<close>.
\<close>

record Moneyline =
  ml_home :: int
  ml_away :: int

record Spread =
  favorite :: string
  sp_line :: pyfloat
  price :: int

record Total =
  tot_line :: pyfloat
  over_price :: int
  under_price :: int

record Game =
  week :: int
  kickoff_iso :: string
  home :: string
  away :: string
  moneyline :: Moneyline
  spread :: Spread
  totals :: Total

text \<open>
  A \<^verbatim>\<open>str\<close> field of a pydantic model takes a string as it is and rejects \<^verbatim>\<open>None\<close>
  with a \<^verbatim>\<open>ValidationError\<close>. The integer and float fields are always given Python
  integers and floats by the code, which pass (the model puts no bound on the size of an
  integer field).
\<close>

fun validate_str :: "pylib \<Rightarrow> pyval \<Rightarrow> exn + string" where
  "validate_str L (PStr s) = Inr s"
| "validate_str L PNone = Inl ValidationError"
| "validate_str L v =
     (case str_of_num L v of None \<Rightarrow> Inl ValidationError | Some s \<Rightarrow> Inr s)"

section \<open>Event normalisation\<close>

text \<open>
  \<open>falsy x\<close> is \<^verbatim>\<open>not x\<close> for a value that is \<^verbatim>\<open>None\<close> or an outcome, and
  \<open>or_else x y\<close> is \<^verbatim>\<open>x or y\<close>.
\<close>

definition falsy :: "pydict option \<Rightarrow> bool" where
  "falsy x = (case x of None \<Rightarrow> True | Some d \<Rightarrow> d = [])"

definition or_else :: "pydict option \<Rightarrow> pydict option \<Rightarrow> pydict option" where
  "or_else x y = (if falsy x then y else x)"

definition outcome_name :: "pydict \<Rightarrow> pyval" where
  "outcome_name oc = dget oc ''name''"

text \<open>
  \<^verbatim>\<open>str(o.get("name","")).lower().startswith(p)\<close> for \<open>p\<close> one of \<^verbatim>\<open>"over"\<close>,
  \<^verbatim>\<open>"under"\<close>. \<^verbatim>\<open>str\<close> of \<^verbatim>\<open>None\<close>, of a boolean or of a number begins with none
  of the letters of \<open>p\<close>, in either case, so only a string name can match. A string is
  its UTF-8 bytes; lowering changes the ASCII capitals, and no other character lowers to
  an ASCII letter of \<open>p\<close>.
\<close>

definition lower_char :: "char \<Rightarrow> char" where
  "lower_char c =
     (case map_of (zip ''ABCDEFGHIJKLMNOPQRSTUVWXYZ'' ''abcdefghijklmnopqrstuvwxyz'') c of
        None \<Rightarrow> c
      | Some l \<Rightarrow> l)"

definition name_startswith :: "pydict \<Rightarrow> string \<Rightarrow> bool" where
  "name_startswith oc p =
     (case dget_or oc ''name'' (PStr []) of
        PStr s \<Rightarrow> take (length p) (map lower_char s) = p
      | _ \<Rightarrow> False)"

text \<open>
  The three parts of \<^verbatim>\<open>map_event_to_game\<close>, in the order of the source. Each returns
  \<open>Inr None\<close> where the source returns \<^verbatim>\<open>None\<close>, and \<open>Inl\<close> where a coercion or the
  construction of the model raises.

  Moneyline (source lines 106 to 113). \<open>mkts\<close> is \<^verbatim>\<open>book.get("markets", [])\<close>; the
  dictionary \<^verbatim>\<open>markets\<close> is read with \<open>comp_get key mkts\<close>, the dictionary
  \<^verbatim>\<open>ml_out\<close> with \<open>comp_get outcome_name\<close>. \<open>moneyline_of_sides\<close> is line 113, the
  two prices coerced in turn.
\<close>

definition moneyline_of_sides :: "pylib \<Rightarrow> pydict \<Rightarrow> pydict \<Rightarrow> exn + Moneyline option" where
  "moneyline_of_sides L ml_h ml_a =
     (case american_int L (dget ml_h ''price'') of
        Inl e \<Rightarrow> Inl e
      | Inr ph \<Rightarrow>
          (case american_int L (dget ml_a ''price'') of
             Inl e \<Rightarrow> Inl e
           | Inr pa \<Rightarrow> Inr (Some \<lparr>ml_home = ph, ml_away = pa\<rparr>)))"

definition moneyline_part ::
  "pylib \<Rightarrow> pyval \<Rightarrow> pyval \<Rightarrow> market list \<Rightarrow> exn + Moneyline option" where
  "moneyline_part L hm aw mkts =
     (case comp_get key mkts (PStr ''h2h'') of
        None \<Rightarrow> Inr None
      | Some ml \<Rightarrow>
          if outcomes ml = [] then Inr None
          else
            let ml_out = comp_get outcome_name (outcomes ml) in
            (case or_else (ml_out hm) (ml_out (PStr ''Home'')) of
               None \<Rightarrow> Inr None
             | Some ml_h \<Rightarrow>
                 (case or_else (ml_out aw) (ml_out (PStr ''Away'')) of
                    None \<Rightarrow> Inr None
                  | Some ml_a \<Rightarrow>
                      if ml_h = [] \<or> ml_a = [] then Inr None
                      else moneyline_of_sides L ml_h ml_a)))"

text \<open>
  Spreads (source lines 115 to 127). \<open>side_outcome\<close> is
  \<^verbatim>\<open>next((o for o in sp["outcomes"] if o.get("name") in (team, label)), None)\<close>.
\<close>

definition side_outcome :: "pydict list \<Rightarrow> pyval \<Rightarrow> string \<Rightarrow> pydict option" where
  "side_outcome ocs team label =
     find (\<lambda>oc. py_eq (outcome_name oc) team \<or> py_eq (outcome_name oc) (PStr label)) ocs"

text \<open>
  The favourite (source lines 121 to 127), from the two outcomes found: the points are
  read and the side with the smaller point is taken (the away side when the home point
  is not smaller). \<open>spread_of_side\<close> is what either branch does with the side taken:
  the price is coerced, and \<^verbatim>\<open>Spread\<close> is built, which validates the team name.
\<close>

definition spread_of_side :: "pylib \<Rightarrow> pyval \<Rightarrow> pyfloat \<Rightarrow> pydict \<Rightarrow> exn + Spread option" where
  "spread_of_side L fav line side =
     (case american_int L (dget side ''price'') of
        Inl e \<Rightarrow> Inl e
      | Inr p \<Rightarrow>
          (case validate_str L fav of
             Inl e \<Rightarrow> Inl e
           | Inr f \<Rightarrow> Inr (Some \<lparr>favorite = f, sp_line = line, price = p\<rparr>)))"

definition spread_of_sides ::
  "pylib \<Rightarrow> pyval \<Rightarrow> pyval \<Rightarrow> pydict \<Rightarrow> pydict \<Rightarrow> exn + Spread option" where
  "spread_of_sides L hm aw spread_home spread_away =
     (case py_float L (dget spread_home ''point'') of
        Inl e \<Rightarrow> Inl e
      | Inr home_point \<Rightarrow>
          (case py_float L (dget spread_away ''point'') of
             Inl e \<Rightarrow> Inl e
           | Inr away_point \<Rightarrow>
               if fl_less home_point away_point
               then spread_of_side L hm (fl_abs home_point) spread_home
               else spread_of_side L aw (fl_abs away_point) spread_away))"

definition spread_part ::
  "pylib \<Rightarrow> pyval \<Rightarrow> pyval \<Rightarrow> market list \<Rightarrow> exn + Spread option" where
  "spread_part L hm aw mkts =
     (case comp_get key mkts (PStr ''spreads'') of
        None \<Rightarrow> Inr None
      | Some sp \<Rightarrow>
          if outcomes sp = [] then Inr None
          else
            (case side_outcome (outcomes sp) hm ''Home'' of
               None \<Rightarrow> Inr None
             | Some spread_home \<Rightarrow>
                 (case side_outcome (outcomes sp) aw ''Away'' of
                    None \<Rightarrow> Inr None
                  | Some spread_away \<Rightarrow>
                      if spread_home = [] \<or> spread_away = [] then Inr None
                      else spread_of_sides L hm aw spread_home spread_away)))"

text \<open>Totals (source lines 129 to 136); \<open>total_of_sides\<close> is the construction of \<^verbatim>\<open>Total\<close>.\<close>

definition total_of_sides :: "pylib \<Rightarrow> pydict \<Rightarrow> pydict \<Rightarrow> exn + Total option" where
  "total_of_sides L over_oc under_oc =
     (case py_float L (dget over_oc ''point'') of
        Inl e \<Rightarrow> Inl e
      | Inr line \<Rightarrow>
     (case american_int L (dget over_oc ''price'') of
        Inl e \<Rightarrow> Inl e
      | Inr po \<Rightarrow>
     (case american_int L (dget under_oc ''price'') of
        Inl e \<Rightarrow> Inl e
      | Inr pu \<Rightarrow> Inr (Some \<lparr>tot_line = line, over_price = po, under_price = pu\<rparr>))))"

definition total_part :: "pylib \<Rightarrow> market list \<Rightarrow> exn + Total option" where
  "total_part L mkts =
     (case comp_get key mkts (PStr ''totals'') of
        None \<Rightarrow> Inr None
      | Some tot \<Rightarrow>
          if outcomes tot = [] then Inr None
          else
            (case find (\<lambda>oc. name_startswith oc ''over'') (outcomes tot) of
               None \<Rightarrow> Inr None
             | Some over_oc \<Rightarrow>
                 (case find (\<lambda>oc. name_startswith oc ''under'') (outcomes tot) of
                    None \<Rightarrow> Inr None
                  | Some under_oc \<Rightarrow>
                      if over_oc = [] \<or> under_oc = [] then Inr None
                      else total_of_sides L over_oc under_oc)))"

text \<open>
  \<^verbatim>\<open>map_event_to_game\<close>. \<open>ko_iso\<close> is \<^verbatim>\<open>ev.get("commence_time")\<close>. The last step is
  the construction of \<^verbatim>\<open>Game\<close>, which validates its three string fields together.
\<close>

definition ko_iso :: "event \<Rightarrow> pyval" where
  "ko_iso ev = (case commence_time ev of None \<Rightarrow> PNone | Some v \<Rightarrow> v)"

definition map_event_to_game :: "pylib \<Rightarrow> event \<Rightarrow> bookmaker \<Rightarrow> exn + Game option" where
  "map_event_to_game L ev book =
     (case moneyline_part L (home_team ev) (away_team ev) (markets book) of
        Inl e \<Rightarrow> Inl e
      | Inr None \<Rightarrow> Inr None
      | Inr (Some ml) \<Rightarrow>
     (case spread_part L (home_team ev) (away_team ev) (markets book) of
        Inl e \<Rightarrow> Inl e
      | Inr None \<Rightarrow> Inr None
      | Inr (Some sp) \<Rightarrow>
     (case total_part L (markets book) of
        Inl e \<Rightarrow> Inl e
      | Inr None \<Rightarrow> Inr None
      | Inr (Some tot) \<Rightarrow>
     (case (validate_str L (ko_iso ev), validate_str L (home_team ev),
            validate_str L (away_team ev)) of
        (Inr k, Inr h, Inr a) \<Rightarrow>
          Inr (Some \<lparr>week = 1, kickoff_iso = k, home = h, away = a,
                     moneyline = ml, spread = sp, totals = tot\<rparr>)
      | _ \<Rightarrow> Inl ValidationError))))"

section \<open>Time windows\<close>

text \<open>
  \<^verbatim>\<open>d + timedelta\<close>, with the \<^verbatim>\<open>timedelta\<close> in microseconds: the sum is split into
  days and time of day again, and a day outside \<open>1..MAXORDINAL\<close> raises
  \<^verbatim>\<open>OverflowError\<close>. The \<^verbatim>\<open>tzinfo\<close> is kept.
\<close>

definition dt_add :: "datetime \<Rightarrow> int \<Rightarrow> exn + datetime" where
  "dt_add d delta =
     (let total = toordinal d * DAY + micros d + delta;
          dys = total div DAY
      in if 0 < dys \<and> dys \<le> MAXORDINAL
         then Inr (d\<lparr>toordinal := dys, micros := total mod DAY\<rparr>)
         else Inl OverflowError)"

definition timedelta_days :: "int \<Rightarrow> int" where
  "timedelta_days n = n * DAY"

definition timedelta_seconds :: "int \<Rightarrow> int" where
  "timedelta_seconds n = n * 1000000"

text \<open>\<^verbatim>\<open>weekday()\<close>: Monday is 0 and Sunday is 6.\<close>

definition weekday :: "datetime \<Rightarrow> int" where
  "weekday d = (toordinal d + 6) mod 7"

text \<open>
  \<^verbatim>\<open>d.astimezone(timezone.utc)\<close>: a value already in UTC is returned as it is; another
  aware value is moved by its offset; a naive value is taken as local time of the system.
\<close>

definition astimezone_utc :: "pylib \<Rightarrow> datetime \<Rightarrow> exn + datetime" where
  "astimezone_utc L d =
     (case utcoffset d of
        Some off \<Rightarrow>
          if off = 0 then Inr d
          else (case dt_add d (- off) of
                  Inl e \<Rightarrow> Inl e
                | Inr u \<Rightarrow> Inr (u\<lparr>utcoffset := Some 0\<rparr>))
      | None \<Rightarrow>
          (case dt_add d (- local_utcoffset L d) of
             Inl e \<Rightarrow> Inl e
           | Inr u \<Rightarrow> Inr (u\<lparr>utcoffset := Some 0\<rparr>)))"

text \<open>
  Comparison of two \<^verbatim>\<open>datetime\<close>s: two aware values are compared as instants, two
  naive values by their fields, and a naive with an aware value raises \<^verbatim>\<open>TypeError\<close>.
\<close>

definition wall_micros :: "datetime \<Rightarrow> int" where
  "wall_micros d = toordinal d * DAY + micros d"

definition dt_cmp :: "(int \<Rightarrow> int \<Rightarrow> bool) \<Rightarrow> datetime \<Rightarrow> datetime \<Rightarrow> exn + bool" where
  "dt_cmp rel a b =
     (case utcoffset a of
        None \<Rightarrow>
          (case utcoffset b of
             None \<Rightarrow> Inr (rel (wall_micros a) (wall_micros b))
           | Some _ \<Rightarrow> Inl TypeError)
      | Some oa \<Rightarrow>
          (case utcoffset b of
             None \<Rightarrow> Inl TypeError
           | Some ob \<Rightarrow> Inr (rel (wall_micros a - oa) (wall_micros b - ob))))"

definition dt_le :: "datetime \<Rightarrow> datetime \<Rightarrow> exn + bool" where
  "dt_le = dt_cmp (\<le>)"

definition dt_less :: "datetime \<Rightarrow> datetime \<Rightarrow> exn + bool" where
  "dt_less = dt_cmp (<)"

text \<open>
  \<^verbatim>\<open>now_utc()\<close>: the reading \<open>t\<close> of the system clock, in microseconds since
  0001-01-01T00:00 UTC, as an aware \<^verbatim>\<open>datetime\<close> in UTC.
\<close>

definition now_utc :: "int \<Rightarrow> datetime" where
  "now_utc t = \<lparr>toordinal = t div DAY + 1, micros = t mod DAY, utcoffset = Some 0\<rparr>"

text \<open>\<^verbatim>\<open>football_week_window\<close>; \<^verbatim>\<open>replace(hour=0, ...)\<close> sets the time of day to 0.\<close>

definition football_week_window :: "pylib \<Rightarrow> datetime \<Rightarrow> exn + (datetime \<times> datetime)" where
  "football_week_window L now =
     (let wkday = weekday now in
      case dt_add now (- timedelta_days wkday) of
        Inl e \<Rightarrow> Inl e
      | Inr m0 \<Rightarrow>
          let monday = m0\<lparr>micros := 0\<rparr> in
          (case dt_add monday (timedelta_days 3) of
             Inl e \<Rightarrow> Inl e
           | Inr thursday \<Rightarrow>
          (case dt_add monday (timedelta_days 8) of
             Inl e \<Rightarrow> Inl e
           | Inr tuesday_next \<Rightarrow>
          (case astimezone_utc L thursday of
             Inl e \<Rightarrow> Inl e
           | Inr start \<Rightarrow>
          (case astimezone_utc L tuesday_next of
             Inl e \<Rightarrow> Inl e
           | Inr endw \<Rightarrow> Inr (start, endw))))))"

text \<open>
  \<^verbatim>\<open>x.replace("Z", "+00:00")\<close>: every \<^verbatim>\<open>Z\<close> of a string is replaced; a value that is
  not a string has no such method and raises \<^verbatim>\<open>AttributeError\<close>.
\<close>

definition replace_Z :: "string \<Rightarrow> string" where
  "replace_Z s = concat (map (\<lambda>c. if c = CHR ''Z'' then ''+00:00'' else [c]) s)"

fun py_replace_Z :: "pyval \<Rightarrow> exn + string" where
  "py_replace_Z (PStr s) = Inr (replace_Z s)"
| "py_replace_Z _ = Inl AttributeError"

text \<open>
  \<^verbatim>\<open>within_window\<close>. Only the \<^verbatim>\<open>ValueError\<close> of \<^verbatim>\<open>fromisoformat\<close> is caught; the
  chained comparison \<^verbatim>\<open>start <= dt <= end\<close> stands outside the \<^verbatim>\<open>try\<close> and
  evaluates \<^verbatim>\<open>dt <= end\<close> only when \<^verbatim>\<open>start <= dt\<close> holds.
\<close>

definition within_window :: "pylib \<Rightarrow> pyval \<Rightarrow> datetime \<Rightarrow> datetime \<Rightarrow> exn + bool" where
  "within_window L commence_iso start endw =
     (case py_replace_Z commence_iso of
        Inl e \<Rightarrow> Inl e
      | Inr isostr \<Rightarrow>
          (case fromisoformat L isostr of
             None \<Rightarrow> Inr False
           | Some dt \<Rightarrow>
               (case dt_le start dt of
                  Inl e \<Rightarrow> Inl e
                | Inr False \<Rightarrow> Inr False
                | Inr True \<Rightarrow> dt_le dt endw)))"

section \<open>Cache\<close>

text \<open>
  The dictionary \<^verbatim>\<open>_cache\<close> is the state, passed in and returned. \<open>t\<close> is the reading
  of the clock at the call of \<^verbatim>\<open>now_utc()\<close> inside the function (\<^verbatim>\<open>cache_get\<close> reads
  the clock only when the key has an entry). An entry is a non-empty dictionary, so
  \<^verbatim>\<open>if e\<close> asks whether the key has one. \<^verbatim>\<open>cache_get\<close> does not write to the
  dictionary, so it returns a value only; \<open>Inr None\<close> is the \<^verbatim>\<open>None\<close> it returns.
\<close>

record 'a cache_entry =
  data :: 'a
  exp_dt :: datetime

type_synonym 'a cache = "string \<Rightarrow> 'a cache_entry option"

definition cache_get :: "'a cache \<Rightarrow> int \<Rightarrow> string \<Rightarrow> exn + 'a option" where
  "cache_get c t k =
     (case c k of
        None \<Rightarrow> Inr None
      | Some e \<Rightarrow>
          (case dt_less (now_utc t) (exp_dt e) of
             Inl x \<Rightarrow> Inl x
           | Inr True \<Rightarrow> Inr (Some (data e))
           | Inr False \<Rightarrow> Inr None))"

definition cache_set :: "'a cache \<Rightarrow> int \<Rightarrow> string \<Rightarrow> 'a \<Rightarrow> int \<Rightarrow> exn + 'a cache" where
  "cache_set c t k v ttl =
     (case dt_add (now_utc t) (timedelta_seconds ttl) of
        Inl x \<Rightarrow> Inl x
      | Inr e \<Rightarrow> Inr (c(k \<mapsto> \<lparr>data = v, exp_dt = e\<rparr>)))"

section \<open>Fetching\<close>

text \<open>
  What the provider does on a request is an input: it does not answer, or it answers
  with a status and, for status 200, the list of events. \<open>apikey\<close> is
  \<^verbatim>\<open>ODDS_API_KEY\<close>, \<open>None\<close> when the variable is not set.
\<close>

datatype upstream = Unreachable | Answer nat "event list"

definition fetch_odds :: "string option \<Rightarrow> upstream \<Rightarrow> exn + event list" where
  "fetch_odds apikey up =
     (if apikey = None \<or> apikey = Some [] then Inl (HTTPException 500)
      else (case up of
              Unreachable \<Rightarrow> Inl TransportError
            | Answer st body \<Rightarrow>
                if st = 429 then Inl (HTTPException 503)
                else if st \<noteq> 200 then Inl (HTTPException 502)
                else Inr body))"

section \<open>Routes\<close>

text \<open>
  The environment of a request: the API key, the provider's answer for each sport key,
  and the readings of the clock at the four places where a route calls \<^verbatim>\<open>now_utc()\<close>:
  \<open>clock E 0\<close> in \<^verbatim>\<open>cache_get\<close>, \<open>clock E 1\<close> for the window or for today's date,
  \<open>clock E 2\<close> for \<^verbatim>\<open>as_of\<close> and \<open>clock E 3\<close> in \<^verbatim>\<open>cache_set\<close>. The response keeps
  \<^verbatim>\<open>as_of\<close> as the \<^verbatim>\<open>datetime\<close> whose \<^verbatim>\<open>isoformat()\<close> the source stores. A cached
  response is a non-empty dictionary, so \<^verbatim>\<open>if (cached := cache_get(key))\<close> asks whether
  \<^verbatim>\<open>cache_get\<close> returned one.
\<close>

record env =
  apikey :: "string option"
  provider :: "string \<Rightarrow> upstream"
  clock :: "nat \<Rightarrow> int"

record response =
  as_of :: datetime
  games :: "Game list"

text \<open>\<^verbatim>\<open>ev.get("commence_time", "")\<close>.\<close>

definition commence_or_empty :: "event \<Rightarrow> pyval" where
  "commence_or_empty ev = (case commence_time ev of None \<Rightarrow> PStr [] | Some v \<Rightarrow> v)"

text \<open>
  The loop of the weekend routes (source lines 160 to 165). A bookmaker that is the empty
  dictionary is skipped by \<^verbatim>\<open>if not book: continue\<close>; as a record it has no markets, for
  which \<open>map_event_to_game\<close> returns \<open>Inr None\<close>, and the event is skipped as well.
\<close>

fun weekend_games :: "pylib \<Rightarrow> datetime \<Rightarrow> datetime \<Rightarrow> event list \<Rightarrow> exn + Game list" where
  "weekend_games L start endw [] = Inr []"
| "weekend_games L start endw (ev # evs) =
     (case within_window L (commence_or_empty ev) start endw of
        Inl e \<Rightarrow> Inl e
      | Inr False \<Rightarrow> weekend_games L start endw evs
      | Inr True \<Rightarrow>
          (case choose_book (bookmakers ev) of
             None \<Rightarrow> weekend_games L start endw evs
           | Some book \<Rightarrow>
               (case map_event_to_game L ev book of
                  Inl e \<Rightarrow> Inl e
                | Inr None \<Rightarrow> weekend_games L start endw evs
                | Inr (Some g) \<Rightarrow>
                    (case weekend_games L start endw evs of
                       Inl e \<Rightarrow> Inl e
                     | Inr gs \<Rightarrow> Inr (g # gs)))))"

definition weekend_route ::
  "string \<Rightarrow> string \<Rightarrow> pylib \<Rightarrow> env \<Rightarrow> response cache \<Rightarrow> exn + (response \<times> response cache)" where
  "weekend_route ckey sport L E c =
     (case cache_get c (clock E 0) ckey of
        Inl e \<Rightarrow> Inl e
      | Inr (Some cached) \<Rightarrow> Inr (cached, c)
      | Inr None \<Rightarrow>
     (case fetch_odds (apikey E) (provider E sport) of
        Inl e \<Rightarrow> Inl e
      | Inr raw \<Rightarrow>
     (case football_week_window L (now_utc (clock E 1)) of
        Inl e \<Rightarrow> Inl e
      | Inr (start, endw) \<Rightarrow>
     (case weekend_games L start endw raw of
        Inl e \<Rightarrow> Inl e
      | Inr gs \<Rightarrow>
          let d = \<lparr>as_of = now_utc (clock E 2), games = gs\<rparr> in
          (case cache_set c (clock E 3) ckey d CACHE_TTL_SECS of
             Inl e \<Rightarrow> Inl e
           | Inr c' \<Rightarrow> Inr (d, c'))))))"


definition cfb_weekend :: "pylib \<Rightarrow> env \<Rightarrow> response cache \<Rightarrow> exn + (response \<times> response cache)" where
  "cfb_weekend = weekend_route ''cfb_weekend'' ''americanfootball_ncaaf''"

text \<open>
  The filter of \<^verbatim>\<open>nfl_today\<close> (source lines 177 to 180): whether the event is kept.
  \<open>today\<close> is \<^verbatim>\<open>now_utc().date()\<close>, a date as its ordinal, and \<^verbatim>\<open>dt.date()\<close> is the
  date of the fields of \<open>dt\<close>, whatever its \<^verbatim>\<open>tzinfo\<close>.
\<close>

definition commence_today :: "pylib \<Rightarrow> event \<Rightarrow> int \<Rightarrow> exn + bool" where
  "commence_today L ev today =
     (case py_replace_Z (commence_or_empty ev) of
        Inl e \<Rightarrow> Inl e
      | Inr isostr \<Rightarrow>
          (case fromisoformat L isostr of
             None \<Rightarrow> Inr False
           | Some dt \<Rightarrow> Inr (toordinal dt = today)))"







section \<open>Calendar dates and a library instance for concrete data\<close>

text \<open>
  The ordinal of a calendar date, as Python's \<^verbatim>\<open>date(y, m, d).toordinal()\<close> computes
  it, and the \<^verbatim>\<open>datetime\<close> of given calendar and clock fields. They serve to write
  concrete dates; the program itself never builds a date from its fields.
\<close>

definition is_leap :: "int \<Rightarrow> bool" where
  "is_leap y = (y mod 4 = 0 \<and> (y mod 100 \<noteq> 0 \<or> y mod 400 = 0))"

definition days_in_month :: "int \<Rightarrow> int \<Rightarrow> int" where
  "days_in_month y m =
     (if m = 2 then (if is_leap y then 29 else 28)
      else if m = 4 \<or> m = 6 \<or> m = 9 \<or> m = 11 then 30 else 31)"

definition days_before_year :: "int \<Rightarrow> int" where
  "days_before_year y = (y - 1) * 365 + (y - 1) div 4 - (y - 1) div 100 + (y - 1) div 400"

definition days_before_month :: "int \<Rightarrow> int \<Rightarrow> int" where
  "days_before_month y m = sum_list (map (days_in_month y) [1..m - 1])"

definition ymd2ord :: "int \<Rightarrow> int \<Rightarrow> int \<Rightarrow> int" where
  "ymd2ord y m d = days_before_year y + days_before_month y m + d"

definition datetime_of ::
  "int \<Rightarrow> int \<Rightarrow> int \<Rightarrow> int \<Rightarrow> int \<Rightarrow> int \<Rightarrow> int option \<Rightarrow> datetime" where
  "datetime_of y m d hh mi ss off =
     \<lparr>toordinal = ymd2ord y m d,
      micros = ((hh * 60 + mi) * 60 + ss) * 1000000,
      utcoffset = off\<rparr>"

text \<open>
  \<open>plain_lib\<close> is an instance of the library for evaluating the program on concrete
  data. It reads plain integer numerals (an optional sign and one to 15 digits), as an
  integer for \<^verbatim>\<open>int\<close> and as the float of that integer for \<^verbatim>\<open>float\<close>, which is
  exact for numbers of this size, and timestamps of the form
  \<^verbatim>\<open>YYYY-MM-DDTHH:MM:SS\<close> with an optional offset \<^verbatim>\<open>+HH:MM\<close> or \<^verbatim>\<open>-HH:MM\<close>; on these
  it returns what Python returns. It rejects every other string and every integer beyond
  \<open>2^53\<close>, which Python does not always do, so it is used on data of these forms only.
  For a \<^verbatim>\<open>str\<close> field it rejects numbers, and it takes UTC as the local time zone. The
  general theorems below hold for every library; this instance only supplies their
  concrete instances.
\<close>

definition digit_val :: "char \<Rightarrow> int option" where
  "digit_val c =
     (if CHR ''0'' \<le> c \<and> c \<le> CHR ''9'' then Some (of_char c - 48) else None)"

fun digits_val :: "string \<Rightarrow> int \<Rightarrow> int option" where
  "digits_val [] acc = Some acc"
| "digits_val (c # cs) acc =
     (case digit_val c of None \<Rightarrow> None | Some d \<Rightarrow> digits_val cs (10 * acc + d))"

definition int_of_digits :: "string \<Rightarrow> int option" where
  "int_of_digits s = (if s = [] then None else digits_val s 0)"

definition digits_of :: "string \<Rightarrow> string" where
  "digits_of s =
     (case s of
        [] \<Rightarrow> []
      | c # cs \<Rightarrow> if c = CHR ''-'' \<or> c = CHR ''+'' then cs else s)"

definition plain_int :: "string \<Rightarrow> int option" where
  "plain_int s =
     (if length (digits_of s) > 15 then None
      else map_option (\<lambda>n. if take 1 s = ''-'' then - n else n) (int_of_digits (digits_of s)))"

definition plain_float :: "string \<Rightarrow> pyfloat option" where
  "plain_float s = map_option (\<lambda>n. Finite (of_int n)) (plain_int s)"

definition field2 :: "string \<Rightarrow> nat \<Rightarrow> int option" where
  "field2 s i = int_of_digits (take 2 (drop i s))"

definition plain_offset :: "string \<Rightarrow> int option option" where
  "plain_offset s =
     (if s = [] then Some None
      else if length s \<noteq> 6 \<or> (hd s \<noteq> CHR ''+'' \<and> hd s \<noteq> CHR ''-'') \<or> s ! 3 \<noteq> CHR '':''
      then None
      else
        Option.bind (field2 s 1) (\<lambda>hh.
        Option.bind (field2 s 4) (\<lambda>mi.
          if hh < 24 \<and> mi < 60
          then Some (Some ((if hd s = CHR ''-'' then - 1 else 1)
                            * (hh * 3600 + mi * 60) * 1000000))
          else None)))"

definition plain_iso :: "string \<Rightarrow> datetime option" where
  "plain_iso s =
     (if length s < 19 \<or> s ! 4 \<noteq> CHR ''-'' \<or> s ! 7 \<noteq> CHR ''-'' \<or> s ! 10 \<noteq> CHR ''T''
         \<or> s ! 13 \<noteq> CHR '':'' \<or> s ! 16 \<noteq> CHR '':''
      then None
      else
        Option.bind (int_of_digits (take 4 s)) (\<lambda>y.
        Option.bind (field2 s 5) (\<lambda>m.
        Option.bind (field2 s 8) (\<lambda>d.
        Option.bind (field2 s 11) (\<lambda>hh.
        Option.bind (field2 s 14) (\<lambda>mi.
        Option.bind (field2 s 17) (\<lambda>ss.
        Option.bind (plain_offset (drop 19 s)) (\<lambda>off.
          if 1 \<le> y \<and> 1 \<le> m \<and> m \<le> 12 \<and> 1 \<le> d \<and> d \<le> days_in_month y m
             \<and> hh < 24 \<and> mi < 60 \<and> ss < 60
          then Some (datetime_of y m d hh mi ss off)
          else None))))))))"

definition plain_lib :: pylib where
  "plain_lib =
     \<lparr>float_of_str = plain_float,
      float_of_big = (\<lambda>i. None),
      int_of_str = plain_int,
      str_of_num = (\<lambda>v. None),
      fromisoformat = plain_iso,
      local_utcoffset = (\<lambda>d. 0)\<rparr>"

section \<open>Vocabulary of the properties\<close>

text \<open>
  A market key is missing from a bookmaker's markets when the dictionary \<^verbatim>\<open>markets\<close>
  (the last market of each key) has no entry for it, or the entry has no outcomes.
\<close>

definition market_missing :: "market list \<Rightarrow> string \<Rightarrow> bool" where
  "market_missing mkts k =
     (case comp_get key mkts (PStr k) of None \<Rightarrow> True | Some m \<Rightarrow> outcomes m = [])"

text \<open>
  The outcomes that the part of a market reads its prices and points from: the two
  outcomes found for the home and the away side in \<^verbatim>\<open>h2h\<close> and in \<^verbatim>\<open>spreads\<close>, and
  the Over and the Under outcome of \<^verbatim>\<open>totals\<close>; there are none when the part returns
  \<^verbatim>\<open>None\<close> before it reads them.
\<close>

definition h2h_sides :: "pyval \<Rightarrow> pyval \<Rightarrow> market list \<Rightarrow> (pydict \<times> pydict) option" where
  "h2h_sides hm aw mkts =
     (case comp_get key mkts (PStr ''h2h'') of
        None \<Rightarrow> None
      | Some ml \<Rightarrow>
          if outcomes ml = [] then None
          else
            (case or_else (comp_get outcome_name (outcomes ml) hm)
                          (comp_get outcome_name (outcomes ml) (PStr ''Home'')) of
               None \<Rightarrow> None
             | Some ml_h \<Rightarrow>
                 (case or_else (comp_get outcome_name (outcomes ml) aw)
                               (comp_get outcome_name (outcomes ml) (PStr ''Away'')) of
                    None \<Rightarrow> None
                  | Some ml_a \<Rightarrow> if ml_h = [] \<or> ml_a = [] then None else Some (ml_h, ml_a))))"

definition spread_sides :: "pyval \<Rightarrow> pyval \<Rightarrow> market list \<Rightarrow> (pydict \<times> pydict) option" where
  "spread_sides hm aw mkts =
     (case comp_get key mkts (PStr ''spreads'') of
        None \<Rightarrow> None
      | Some sp \<Rightarrow>
          if outcomes sp = [] then None
          else
            (case side_outcome (outcomes sp) hm ''Home'' of
               None \<Rightarrow> None
             | Some sh \<Rightarrow>
                 (case side_outcome (outcomes sp) aw ''Away'' of
                    None \<Rightarrow> None
                  | Some sa \<Rightarrow> if sh = [] \<or> sa = [] then None else Some (sh, sa))))"


text \<open>
  The game a route makes of one event: the bookmaker is chosen and the event normalised;
  there is none when the event has no bookmaker or the normaliser returns \<^verbatim>\<open>None\<close>
  (or raises, which in a route also ends the request).
\<close>

definition normalised :: "pylib \<Rightarrow> event \<Rightarrow> Game option" where
  "normalised L ev =
     (case choose_book (bookmakers ev) of
        None \<Rightarrow> None
      | Some book \<Rightarrow>
          (case map_event_to_game L ev book of
             Inl e \<Rightarrow> None
           | Inr r \<Rightarrow> r))"


section \<open>Sample data\<close>

text \<open>
  The event of the specification's example: home \<^verbatim>\<open>A\<close>, away \<^verbatim>\<open>B\<close>, moneyline
  -150/+130, spreads -3.5 and +3.5, total 48.5 at -105/-115, quoted by DraftKings (the
  spread is priced -110 for the home and -108 for the away side, to tell the sides apart).
  \<open>tie_book\<close> quotes the same with both spread points at 0;
  \<open>nototals_book\<close> lacks the totals market; \<open>noprice_book\<close> has a moneyline whose
  home outcome has no price, and no other market; \<open>nopoint_book\<close> is the sample with
  the point of the home spread missing. \<open>labelled_book\<close> names its outcomes
  \<^verbatim>\<open>Home\<close> and \<^verbatim>\<open>Away\<close> and has no totals; \<open>nohome_event\<close> is an event without a
  \<^verbatim>\<open>home_team\<close>.
\<close>

definition sample_markets :: "pyfloat \<Rightarrow> pyfloat \<Rightarrow> market list" where
  "sample_markets hp ap =
     [\<lparr>key = PStr ''h2h'', outcomes =
         [[(''name'', PStr ''A''), (''price'', PInt (- 150))],
          [(''name'', PStr ''B''), (''price'', PInt 130)]]\<rparr>,
      \<lparr>key = PStr ''spreads'', outcomes =
         [[(''name'', PStr ''A''), (''price'', PInt (- 110)), (''point'', PFloat hp)],
          [(''name'', PStr ''B''), (''price'', PInt (- 108)), (''point'', PFloat ap)]]\<rparr>,
      \<lparr>key = PStr ''totals'', outcomes =
         [[(''name'', PStr ''Over''), (''price'', PInt (- 105)), (''point'', PFloat (Finite (97 / 2)))],
          [(''name'', PStr ''Under''), (''price'', PInt (- 115)), (''point'', PFloat (Finite (97 / 2)))]]\<rparr>]"

definition sample_book :: bookmaker where
  "sample_book = \<lparr>title = PStr ''DraftKings'', markets = sample_markets (Finite (- 7 / 2)) (Finite (7 / 2))\<rparr>"

definition tie_book :: bookmaker where
  "tie_book = \<lparr>title = PStr ''DraftKings'', markets = sample_markets (Finite 0) (Finite 0)\<rparr>"

definition nototals_book :: bookmaker where
  "nototals_book =
     \<lparr>title = PStr ''DraftKings'',
      markets = butlast (sample_markets (Finite (- 7 / 2)) (Finite (7 / 2)))\<rparr>"

definition nopoint_book :: bookmaker where
  "nopoint_book =
     \<lparr>title = PStr ''DraftKings'', markets =
        [\<lparr>key = PStr ''h2h'', outcomes =
            [[(''name'', PStr ''A''), (''price'', PInt (- 150))],
             [(''name'', PStr ''B''), (''price'', PInt 130)]]\<rparr>,
         \<lparr>key = PStr ''spreads'', outcomes =
            [[(''name'', PStr ''A''), (''price'', PInt (- 110))],
             [(''name'', PStr ''B''), (''price'', PInt (- 108)), (''point'', PFloat (Finite (7 / 2)))]]\<rparr>]\<rparr>"

definition noprice_book :: bookmaker where
  "noprice_book =
     \<lparr>title = PStr ''DraftKings'', markets =
        [\<lparr>key = PStr ''h2h'', outcomes =
            [[(''name'', PStr ''A'')],
             [(''name'', PStr ''B''), (''price'', PInt 130)]]\<rparr>]\<rparr>"

definition labelled_book :: bookmaker where
  "labelled_book =
     \<lparr>title = PStr ''DraftKings'', markets =
        [\<lparr>key = PStr ''h2h'', outcomes =
            [[(''name'', PStr ''Home''), (''price'', PInt (- 150))],
             [(''name'', PStr ''Away''), (''price'', PInt 130)]]\<rparr>,
         \<lparr>key = PStr ''spreads'', outcomes =
            [[(''name'', PStr ''Home''), (''price'', PInt (- 110)), (''point'', PFloat (Finite (- 7 / 2)))],
             [(''name'', PStr ''Away''), (''price'', PInt (- 108)), (''point'', PFloat (Finite (7 / 2)))]]\<rparr>]\<rparr>"

definition nohome_event :: "string \<Rightarrow> bookmaker list \<Rightarrow> event" where
  "nohome_event t bs =
     \<lparr>home_team = PNone, away_team = PStr ''B'', commence_time = Some (PStr t),
      bookmakers = bs\<rparr>"

definition sample_event :: "string \<Rightarrow> bookmaker list \<Rightarrow> event" where
  "sample_event t bs =
     \<lparr>home_team = PStr ''A'', away_team = PStr ''B'', commence_time = Some (PStr t),
      bookmakers = bs\<rparr>"

definition sample_game :: "string \<Rightarrow> Spread \<Rightarrow> Game" where
  "sample_game t sp =
     \<lparr>week = 1, kickoff_iso = t, home = ''A'', away = ''B'',
      moneyline = \<lparr>ml_home = - 150, ml_away = 130\<rparr>,
      spread = sp,
      totals = \<lparr>tot_line = Finite (97 / 2), over_price = - 105, under_price = - 115\<rparr>\<rparr>"



section \<open>Properties of bookmaker selection\<close>

lemma py_eq_PStr: "py_eq v (PStr n) = (v = PStr n)"
  by (cases v) auto

lemma find_rev_last:
  "find P (rev xs) = (if \<exists>x\<in>set xs. P x then Some (last (filter P xs)) else None)"
proof (induction xs rule: rev_induct)
  case Nil
  then show ?case by simp
next
  case (snoc x xs)
  then show ?case by auto
qed

lemma comp_get_title:
  "comp_get title bs (PStr n) =
     (if PStr n \<in> title ` set bs then Some (last (filter (\<lambda>b. title b = PStr n) bs)) else None)"
  by (force simp: comp_get_def py_eq_PStr find_rev_last)

lemma scan_priority_find:
  "scan_priority bs ns =
     (case find (\<lambda>n. PStr n \<in> title ` set bs) ns of
        None \<Rightarrow> None
      | Some n \<Rightarrow> Some (last (filter (\<lambda>b. title b = PStr n) bs)))"
  by (induction ns) (simp_all add: comp_get_title)

text \<open>
  C5. \<^verbatim>\<open>choose_book\<close> returns nothing exactly for the empty list. Otherwise, when some
  name of the priority list is the title of a bookmaker, the first such name in priority
  order decides (it depends only on the set of titles, not on the order of the input), and
  the last bookmaker carrying that title is returned; when no priority name is a title,
  the first bookmaker of the input is returned.
\<close>

theorem choose_book_priority:
  "(choose_book bs = None \<longleftrightarrow> bs = []) \<and>
   (\<forall>n. find (\<lambda>n. PStr n \<in> title ` set bs) BOOK_PRIORITY = Some n \<longrightarrow>
      choose_book bs = Some (last (filter (\<lambda>b. title b = PStr n) bs))) \<and>
   (bs \<noteq> [] \<and> find (\<lambda>n. PStr n \<in> title ` set bs) BOOK_PRIORITY = None \<longrightarrow>
      choose_book bs = Some (hd bs))"
proof (cases bs)
  case Nil
  then show ?thesis
    by (simp add: choose_book_def BOOK_PRIORITY_def)
next
  case (Cons b0 rest)
  then show ?thesis
    by (auto simp: choose_book_def scan_priority_find split: option.splits)
qed

text \<open>
  FanDuel before two DraftKings entries: the later DraftKings entry is chosen. A single
  bookmaker outside the priority list is chosen as the first of the input.
\<close>

theorem choose_book_priority_witness:
  "find (\<lambda>n. PStr n \<in> title ` set
      [\<lparr>title = PStr ''FanDuel'', markets = []\<rparr>,
       \<lparr>title = PStr ''DraftKings'', markets = []\<rparr>,
       \<lparr>title = PStr ''DraftKings'', markets = [\<lparr>key = PStr ''h2h'', outcomes = []\<rparr>]\<rparr>])
     BOOK_PRIORITY = Some ''DraftKings'' \<and>
   choose_book
      [\<lparr>title = PStr ''FanDuel'', markets = []\<rparr>,
       \<lparr>title = PStr ''DraftKings'', markets = []\<rparr>,
       \<lparr>title = PStr ''DraftKings'', markets = [\<lparr>key = PStr ''h2h'', outcomes = []\<rparr>]\<rparr>]
     = Some \<lparr>title = PStr ''DraftKings'', markets = [\<lparr>key = PStr ''h2h'', outcomes = []\<rparr>]\<rparr> \<and>
   find (\<lambda>n. PStr n \<in> title ` set [\<lparr>title = PStr ''Unknown Book'', markets = []\<rparr>])
     BOOK_PRIORITY = None \<and>
   choose_book [\<lparr>title = PStr ''Unknown Book'', markets = []\<rparr>]
     = Some \<lparr>title = PStr ''Unknown Book'', markets = []\<rparr>"
  using choose_book_priority
     [of "[\<lparr>title = PStr ''FanDuel'', markets = []\<rparr>,
       \<lparr>title = PStr ''DraftKings'', markets = []\<rparr>,
       \<lparr>title = PStr ''DraftKings'', markets = [\<lparr>key = PStr ''h2h'', outcomes = []\<rparr>]\<rparr>]"]
    choose_book_priority [of "[\<lparr>title = PStr ''Unknown Book'', markets = []\<rparr>]"]
  by (simp add: BOOK_PRIORITY_def)

section \<open>Properties of the cache\<close>

lemma wall_micros_now_utc: "wall_micros (now_utc t) = t + DAY"
  by (simp add: wall_micros_def now_utc_def DAY_def algebra_simps)

lemma utcoffset_now_utc: "utcoffset (now_utc t) = Some 0"
  by (simp add: now_utc_def)

lemma dt_add_wall:
  "dt_add d delta = Inr d' \<Longrightarrow> wall_micros d' = wall_micros d + delta \<and> utcoffset d' = utcoffset d"
  by (auto simp: dt_add_def wall_micros_def Let_def DAY_def split: if_splits)

text \<open>
  C7. After \<^verbatim>\<open>cache_set(key, value)\<close> with the TTL of 45 seconds at clock reading \<open>t\<close>,
  a \<^verbatim>\<open>cache_get(key)\<close> at clock reading \<open>t'\<close> returns the value when \<open>t'\<close> is less
  than 45 seconds after \<open>t\<close>, and \<^verbatim>\<open>None\<close> from the expiry on: the payload is read
  exactly while the clock is strictly before the stored expiry. The entry stays in the
  dictionary whatever the time (\<open>cache_get\<close> does not change the dictionary).
\<close>

theorem cache_ttl:
  assumes "cache_set c t k v CACHE_TTL_SECS = Inr c'"
  shows "cache_get c' t' k = Inr (if t' < t + 45000000 then Some v else None) \<and>
         (\<exists>e. c' k = Some \<lparr>data = v, exp_dt = e\<rparr> \<and> utcoffset e = Some 0 \<and>
              wall_micros e = wall_micros (now_utc t) + 45000000)"
proof -
  from assms obtain e where e: "dt_add (now_utc t) (timedelta_seconds CACHE_TTL_SECS) = Inr e"
    and c': "c' = c(k \<mapsto> \<lparr>data = v, exp_dt = e\<rparr>)"
    by (auto simp: cache_set_def split: sum.splits)
  from dt_add_wall [OF e] have w: "wall_micros e = t + DAY + 45000000" and o: "utcoffset e = Some 0"
    by (simp_all add: wall_micros_now_utc utcoffset_now_utc timedelta_seconds_def CACHE_TTL_SECS_def)
  have "dt_less (now_utc t') e = Inr (t' < t + 45000000)"
    by (simp add: dt_less_def dt_cmp_def o w wall_micros_now_utc utcoffset_now_utc)
  then show ?thesis
    using c' o w by (simp add: cache_get_def wall_micros_now_utc)
qed

text \<open>
  A value stored at 00:00 UTC on 2024-01-04 is read one microsecond before the 45 seconds
  are over and is absent at 45 seconds.
\<close>

theorem cache_ttl_witness:
  "cache_set (\<lambda>k. None) (738888 * DAY) ''nfl_weekend'' (7::nat) CACHE_TTL_SECS
     = Inr ((\<lambda>k. None)(''nfl_weekend'' \<mapsto>
          \<lparr>data = 7, exp_dt = \<lparr>toordinal = 738889, micros = 45000000, utcoffset = Some 0\<rparr>\<rparr>)) \<and>
   cache_get ((\<lambda>k. None)(''nfl_weekend'' \<mapsto>
          \<lparr>data = 7::nat, exp_dt = \<lparr>toordinal = 738889, micros = 45000000, utcoffset = Some 0\<rparr>\<rparr>))
        (738888 * DAY + 44999999) ''nfl_weekend'' = Inr (Some 7) \<and>
   cache_get ((\<lambda>k. None)(''nfl_weekend'' \<mapsto>
          \<lparr>data = 7::nat, exp_dt = \<lparr>toordinal = 738889, micros = 45000000, utcoffset = Some 0\<rparr>\<rparr>))
        (738888 * DAY + 45000000) ''nfl_weekend'' = Inr None"
proof -
  have s: "cache_set (\<lambda>k. None) (738888 * DAY) ''nfl_weekend'' (7::nat) CACHE_TTL_SECS
     = Inr ((\<lambda>k. None)(''nfl_weekend'' \<mapsto>
          \<lparr>data = 7, exp_dt = \<lparr>toordinal = 738889, micros = 45000000, utcoffset = Some 0\<rparr>\<rparr>))"
    by (simp add: cache_set_def dt_add_def now_utc_def timedelta_seconds_def CACHE_TTL_SECS_def
        DAY_def MAXORDINAL_def Let_def)
  show ?thesis
    using s cache_ttl [OF s, of "738888 * DAY + 44999999"] cache_ttl [OF s, of "738888 * DAY + 45000000"]
    by simp
qed

section \<open>Properties of the week window\<close>

lemma weekday_range: "0 \<le> weekday d \<and> weekday d \<le> 6"
  by (simp add: weekday_def)

lemma monday_positive: "1 \<le> toordinal d \<Longrightarrow> 1 \<le> toordinal d - weekday d"
  unfolding weekday_def by presburger

lemma div_day:
  fixes m q :: int
  assumes "0 \<le> m" "m < DAY"
  shows "(q * DAY + m) div DAY = q" "(q * DAY + m) mod DAY = m"
  using assms by (simp_all add: DAY_def)

lemma dt_add_days:
  assumes "0 \<le> micros d" "micros d < DAY" "0 < toordinal d + n" "toordinal d + n \<le> MAXORDINAL"
  shows "dt_add d (timedelta_days n) = Inr (d\<lparr>toordinal := toordinal d + n\<rparr>)"
proof -
  have e: "toordinal d * DAY + micros d + n * DAY = (toordinal d + n) * DAY + micros d"
    by (simp add: distrib_right)
  show ?thesis
    unfolding dt_add_def timedelta_days_def Let_def e div_day [OF assms(1,2)]
    using assms(3,4) by simp
qed

lemma weekday_shift: "weekday (d\<lparr>toordinal := toordinal d - weekday d + n\<rparr>) = n mod 7"
proof -
  define q where "q = (toordinal d + 6) div 7"
  have "toordinal d + 6 = 7 * q + (toordinal d + 6) mod 7"
    by (simp add: q_def)
  then have "toordinal d - (toordinal d + 6) mod 7 + n + 6 = n + q * 7"
    by simp
  then have "(toordinal d - (toordinal d + 6) mod 7 + n + 6) mod 7 = n mod 7"
    by (simp only: mod_mult_self1)
  then show ?thesis
    by (simp add: weekday_def)
qed


text \<open>
  C4 (as amended). For every valid \<open>now\<close> in UTC whose Monday plus 8 days is still a
  date of the calendar (that is, \<open>now\<close> before 9999-12-27), \<^verbatim>\<open>football_week_window\<close>
  returns a pair: \<open>start\<close> is 00:00 UTC on the day 3 days after the Monday on or before
  \<open>now\<close>, a Thursday within 3 days of \<open>now\<close>, and \<open>endw\<close> is \<open>start\<close> plus
  exactly 5 days, a Tuesday at 00:00 UTC.
\<close>

theorem football_week_window_utc:
  assumes utc: "utcoffset now = Some 0"
    and valid: "valid_datetime now"
    and room: "toordinal now - weekday now + 8 \<le> MAXORDINAL"
  shows "\<exists>start endw.
           football_week_window L now = Inr (start, endw) \<and>
           toordinal start = toordinal now - weekday now + 3 \<and>
           toordinal now - 3 \<le> toordinal start \<and> toordinal start \<le> toordinal now + 3 \<and>
           weekday start = 3 \<and> micros start = 0 \<and> utcoffset start = Some 0 \<and>
           dt_add start (timedelta_days 5) = Inr endw \<and>
           weekday endw = 1 \<and> micros endw = 0 \<and> utcoffset endw = Some 0 \<and>
           wall_micros endw - wall_micros start = 5 * DAY"
proof -
  define mo where "mo = toordinal now - weekday now"
  have v: "1 \<le> toordinal now" "0 \<le> micros now" "micros now < DAY"
    using valid by (simp_all add: valid_datetime_def)
  have mo1: "1 \<le> mo" using monday_positive [OF v(1)] by (simp add: mo_def)
  have mo8: "mo + 8 \<le> MAXORDINAL" using room by (simp add: mo_def)
  have D: "0 < DAY" by (simp add: DAY_def)
  have "dt_add now (timedelta_days (- weekday now)) = Inr (now\<lparr>toordinal := toordinal now + - weekday now\<rparr>)"
    using v mo1 mo8 by (intro dt_add_days) (simp_all add: mo_def)
  then have s1: "dt_add now (- timedelta_days (weekday now)) = Inr (now\<lparr>toordinal := mo\<rparr>)"
    by (simp add: mo_def timedelta_days_def)
  define monday where "monday = now\<lparr>toordinal := mo, micros := 0\<rparr>"
  have m: "toordinal monday = mo" "micros monday = 0" "utcoffset monday = Some 0"
    using utc by (simp_all add: monday_def)
  have s2: "dt_add monday (timedelta_days 3) = Inr (monday\<lparr>toordinal := toordinal monday + 3\<rparr>)"
    using mo1 mo8 D by (intro dt_add_days) (simp_all add: m)
  have s3: "dt_add monday (timedelta_days 8) = Inr (monday\<lparr>toordinal := toordinal monday + 8\<rparr>)"
    using mo1 mo8 D by (intro dt_add_days) (simp_all add: m)
  define start where "start = monday\<lparr>toordinal := mo + 3\<rparr>"
  define endw where "endw = monday\<lparr>toordinal := mo + 8\<rparr>"
  have st: "toordinal start = mo + 3" "micros start = 0" "utcoffset start = Some 0"
    and en: "toordinal endw = mo + 8" "micros endw = 0" "utcoffset endw = Some 0"
    by (simp_all add: start_def endw_def m)
  have r: "football_week_window L now = Inr (start, endw)"
    unfolding football_week_window_def Let_def s1
    using s2 s3 st(3) en(3)
    by (simp add: monday_def [symmetric] m start_def [symmetric] endw_def [symmetric] astimezone_utc_def)
  have "dt_add start (timedelta_days 5) = Inr (start\<lparr>toordinal := toordinal start + 5\<rparr>)"
    using mo1 mo8 D by (intro dt_add_days) (simp_all add: st)
  then have s5: "dt_add start (timedelta_days 5) = Inr endw"
    by (simp add: start_def endw_def)
  have w3: "weekday start = 3"
    using weekday_shift [of now 3] by (simp add: weekday_def st mo_def)
  have w1: "weekday endw = 1"
    using weekday_shift [of now 8] by (simp add: weekday_def en mo_def)
  have wd: "wall_micros endw - wall_micros start = 5 * DAY"
    by (simp add: wall_micros_def st en distrib_right)
  have "0 \<le> weekday now \<and> weekday now \<le> 6"
    by (rule weekday_range)
  then have near: "toordinal now - 3 \<le> toordinal start \<and> toordinal start \<le> toordinal now + 3"
    by (simp add: st mo_def)
  show ?thesis
    using r s5 w3 w1 wd st en near by (auto simp: mo_def)
qed

lemmas calendar_defs = datetime_of_def ymd2ord_def days_before_year_def days_before_month_def
  days_in_month_def is_leap_def upto.simps

lemmas window_defs = football_week_window_def weekday_def dt_add_def timedelta_days_def DAY_def
  MAXORDINAL_def astimezone_utc_def Let_def

text \<open>A concrete week: Sunday 2024-01-07 lies in the window from Thursday 2024-01-04.\<close>

theorem football_week_window_utc_witness:
  "utcoffset (datetime_of 2024 1 7 15 30 0 (Some 0)) = Some 0 \<and>
   valid_datetime (datetime_of 2024 1 7 15 30 0 (Some 0)) \<and>
   toordinal (datetime_of 2024 1 7 15 30 0 (Some 0)) - weekday (datetime_of 2024 1 7 15 30 0 (Some 0)) + 8
     \<le> MAXORDINAL \<and>
   football_week_window plain_lib (datetime_of 2024 1 7 15 30 0 (Some 0))
     = Inr (datetime_of 2024 1 4 0 0 0 (Some 0), datetime_of 2024 1 9 0 0 0 (Some 0)) \<and>
   weekday (datetime_of 2024 1 4 0 0 0 (Some 0)) = 3 \<and>
   dt_add (datetime_of 2024 1 4 0 0 0 (Some 0)) (timedelta_days 5)
     = Inr (datetime_of 2024 1 9 0 0 0 (Some 0))"
proof -
  have h1: "utcoffset (datetime_of 2024 1 7 15 30 0 (Some 0)) = Some 0"
    by (simp add: datetime_of_def)
  have h2: "valid_datetime (datetime_of 2024 1 7 15 30 0 (Some 0))"
    by (simp add: valid_datetime_def calendar_defs DAY_def MAXORDINAL_def)
  have h3: "toordinal (datetime_of 2024 1 7 15 30 0 (Some 0))
      - weekday (datetime_of 2024 1 7 15 30 0 (Some 0)) + 8 \<le> MAXORDINAL"
    by (simp add: calendar_defs weekday_def MAXORDINAL_def)
  have r: "football_week_window plain_lib (datetime_of 2024 1 7 15 30 0 (Some 0))
     = Inr (datetime_of 2024 1 4 0 0 0 (Some 0), datetime_of 2024 1 9 0 0 0 (Some 0))"
    by (simp add: calendar_defs window_defs)
  from football_week_window_utc [OF h1 h2 h3, of plain_lib] r
  have "weekday (datetime_of 2024 1 4 0 0 0 (Some 0)) = 3 \<and>
        dt_add (datetime_of 2024 1 4 0 0 0 (Some 0)) (timedelta_days 5)
          = Inr (datetime_of 2024 1 9 0 0 0 (Some 0))"
    by auto
  with h1 h2 h3 r show ?thesis by simp
qed

text \<open>
  C4 as stated, for every \<open>now\<close>, fails in the last days of the calendar: the Monday
  of 9999-12-31 is 9999-12-27, and 8 days later is no date any more.
\<close>

theorem football_week_window_counterexample:
  "utcoffset (datetime_of 9999 12 31 12 0 0 (Some 0)) = Some 0 \<and>
   valid_datetime (datetime_of 9999 12 31 12 0 0 (Some 0)) \<and>
   football_week_window plain_lib (datetime_of 9999 12 31 12 0 0 (Some 0)) = Inl OverflowError"
  by (simp add: valid_datetime_def calendar_defs window_defs)

lemmas parse_defs = plain_lib_def plain_iso_def plain_offset_def field2_def int_of_digits_def
  digit_val_def replace_Z_def

section \<open>Properties of the window test\<close>

lemma astimezone_utc_aware: "astimezone_utc L d = Inr u \<Longrightarrow> utcoffset u = Some 0"
  by (auto simp: astimezone_utc_def split: option.splits if_splits sum.splits)

lemma football_week_window_aware:
  "football_week_window L now = Inr (start, endw) \<Longrightarrow>
     utcoffset start = Some 0 \<and> utcoffset endw = Some 0"
  by (auto simp: football_week_window_def Let_def split: sum.splits dest: astimezone_utc_aware)

text \<open>
  C3 (as amended). The window test is closed at both ends: for a window returned by
  \<^verbatim>\<open>football_week_window\<close> and a timestamp that parses to an aware \<^verbatim>\<open>datetime\<close>,
  that is, to an instant, \<^verbatim>\<open>within_window\<close> returns whether
  \<open>start \<le> t \<and> t \<le> end\<close>, all three taken as instants (the window is in UTC, the
  instant of the timestamp is its fields less its offset).
\<close>

theorem within_window_closed:
  assumes win: "football_week_window L now = Inr (start, endw)"
    and parse: "fromisoformat L (replace_Z s) = Some dt"
    and aware: "utcoffset dt = Some off"
  shows "within_window L (PStr s) start endw =
           Inr (wall_micros start \<le> wall_micros dt - off \<and> wall_micros dt - off \<le> wall_micros endw)"
proof -
  from football_week_window_aware [OF win]
  have a: "utcoffset start = Some 0" "utcoffset endw = Some 0" by simp_all
  have 1: "dt_le start dt = Inr (wall_micros start \<le> wall_micros dt - off)"
    by (simp add: dt_le_def dt_cmp_def a aware)
  have 2: "dt_le dt endw = Inr (wall_micros dt - off \<le> wall_micros endw)"
    by (simp add: dt_le_def dt_cmp_def a aware)
  show ?thesis
    by (cases "wall_micros start \<le> wall_micros dt - off") (simp_all add: within_window_def parse 1 2)
qed

text \<open>A kickoff on Sunday 2024-01-07 at 18:00 UTC is inside the window of that week.\<close>

theorem within_window_closed_witness:
  "football_week_window plain_lib (datetime_of 2024 1 7 15 30 0 (Some 0))
     = Inr (datetime_of 2024 1 4 0 0 0 (Some 0), datetime_of 2024 1 9 0 0 0 (Some 0)) \<and>
   fromisoformat plain_lib (replace_Z ''2024-01-07T18:00:00Z'')
     = Some (datetime_of 2024 1 7 18 0 0 (Some 0)) \<and>
   utcoffset (datetime_of 2024 1 7 18 0 0 (Some 0)) = Some 0 \<and>
   within_window plain_lib (PStr ''2024-01-07T18:00:00Z'')
     (datetime_of 2024 1 4 0 0 0 (Some 0)) (datetime_of 2024 1 9 0 0 0 (Some 0)) = Inr True"
proof -
  have w: "football_week_window plain_lib (datetime_of 2024 1 7 15 30 0 (Some 0))
     = Inr (datetime_of 2024 1 4 0 0 0 (Some 0), datetime_of 2024 1 9 0 0 0 (Some 0))"
    by (simp add: calendar_defs window_defs)
  have p: "fromisoformat plain_lib (replace_Z ''2024-01-07T18:00:00Z'')
     = Some (datetime_of 2024 1 7 18 0 0 (Some 0))"
    by (simp add: parse_defs calendar_defs)
  have a: "utcoffset (datetime_of 2024 1 7 18 0 0 (Some 0)) = Some 0"
    by (simp add: datetime_of_def)
  show ?thesis
    using w p a within_window_closed [OF w p a]
    by (simp add: wall_micros_def calendar_defs DAY_def)
qed

text \<open>
  C3 as stated, with a half-open window, fails: a kickoff exactly at the end of the
  window, Tuesday 2024-01-09 at 00:00 UTC, is accepted.
\<close>

theorem within_window_end_counterexample:
  "football_week_window plain_lib (datetime_of 2024 1 7 15 30 0 (Some 0))
     = Inr (datetime_of 2024 1 4 0 0 0 (Some 0), datetime_of 2024 1 9 0 0 0 (Some 0)) \<and>
   fromisoformat plain_lib (replace_Z ''2024-01-09T00:00:00Z'')
     = Some (datetime_of 2024 1 9 0 0 0 (Some 0)) \<and>
   within_window plain_lib (PStr ''2024-01-09T00:00:00Z'')
     (datetime_of 2024 1 4 0 0 0 (Some 0)) (datetime_of 2024 1 9 0 0 0 (Some 0)) = Inr True"
  by (simp add: calendar_defs window_defs parse_defs within_window_def dt_le_def dt_cmp_def
      wall_micros_def)

text \<open>
  C10. \<^verbatim>\<open>within_window\<close> does not return for every string: a timestamp without an
  offset parses to a naive \<^verbatim>\<open>datetime\<close>, and its comparison with the aware bounds of
  the window raises \<^verbatim>\<open>TypeError\<close>, which no \<^verbatim>\<open>except\<close> clause catches.
\<close>

theorem within_window_naive_raises:
  "fromisoformat plain_lib (replace_Z ''2024-01-05T12:00:00'')
     = Some (datetime_of 2024 1 5 12 0 0 None) \<and>
   within_window plain_lib (PStr ''2024-01-05T12:00:00'')
     (datetime_of 2024 1 4 0 0 0 (Some 0)) (datetime_of 2024 1 9 0 0 0 (Some 0)) = Inl TypeError"
  by (simp add: calendar_defs parse_defs within_window_def dt_le_def dt_cmp_def wall_micros_def)

section \<open>Properties of the filter for today\<close>

text \<open>
  C9 (as amended). For an event whose \<^verbatim>\<open>commence_time\<close> is a string (or is missing,
  which is the empty string), the filter never raises; a timestamp that does not parse
  does not match; a timestamp that parses matches exactly when the calendar date of its
  own fields, as written, is the reference date. For a timestamp in UTC (a \<^verbatim>\<open>Z\<close>
  suffix or a zero offset) the \<^verbatim>\<open>datetime\<close> is its own conversion to UTC, so this is
  its calendar date in UTC.
\<close>

theorem commence_today_own_date:
  assumes "commence_or_empty ev = PStr s"
  shows "commence_today L ev today =
           Inr (case fromisoformat L (replace_Z s) of
                  None \<Rightarrow> False
                | Some dt \<Rightarrow> toordinal dt = today) \<and>
         (\<forall>dt. fromisoformat L (replace_Z s) = Some dt \<and> utcoffset dt = Some 0 \<longrightarrow>
               astimezone_utc L dt = Inr dt \<and>
               commence_today L ev today = Inr (toordinal dt = today))"
  using assms by (simp add: commence_today_def astimezone_utc_def split: option.splits)

lemmas today_defs = commence_today_def commence_or_empty_def

text \<open>A kickoff at 01:00 UTC on 2024-01-02 matches that date; a malformed one does not.\<close>

theorem commence_today_own_date_witness:
  "commence_or_empty \<lparr>home_team = PStr ''A'', away_team = PStr ''B'',
       commence_time = Some (PStr ''2024-01-02T01:00:00Z''), bookmakers = []\<rparr>
     = PStr ''2024-01-02T01:00:00Z'' \<and>
   fromisoformat plain_lib (replace_Z ''2024-01-02T01:00:00Z'')
     = Some (datetime_of 2024 1 2 1 0 0 (Some 0)) \<and>
   commence_today plain_lib \<lparr>home_team = PStr ''A'', away_team = PStr ''B'',
       commence_time = Some (PStr ''2024-01-02T01:00:00Z''), bookmakers = []\<rparr>
     (ymd2ord 2024 1 2) = Inr True \<and>
   commence_or_empty \<lparr>home_team = PStr ''A'', away_team = PStr ''B'',
       commence_time = Some (PStr ''not-a-date''), bookmakers = []\<rparr>
     = PStr ''not-a-date'' \<and>
   commence_today plain_lib \<lparr>home_team = PStr ''A'', away_team = PStr ''B'',
       commence_time = Some (PStr ''not-a-date''), bookmakers = []\<rparr>
     (ymd2ord 2024 1 2) = Inr False"
proof -
  let ?e1 = "\<lparr>home_team = PStr ''A'', away_team = PStr ''B'',
       commence_time = Some (PStr ''2024-01-02T01:00:00Z''), bookmakers = []\<rparr>"
  let ?e2 = "\<lparr>home_team = PStr ''A'', away_team = PStr ''B'',
       commence_time = Some (PStr ''not-a-date''), bookmakers = []\<rparr>"
  have c1: "commence_or_empty ?e1 = PStr ''2024-01-02T01:00:00Z''"
    by (simp add: commence_or_empty_def)
  have c2: "commence_or_empty ?e2 = PStr ''not-a-date''"
    by (simp add: commence_or_empty_def)
  have p1: "fromisoformat plain_lib (replace_Z ''2024-01-02T01:00:00Z'')
     = Some (datetime_of 2024 1 2 1 0 0 (Some 0))"
    by (simp add: parse_defs calendar_defs)
  have p2: "fromisoformat plain_lib (replace_Z ''not-a-date'') = None"
    by (simp add: parse_defs)
  show ?thesis
    using c1 c2 p1 commence_today_own_date [OF c1, of plain_lib "ymd2ord 2024 1 2"]
      commence_today_own_date [OF c2, of plain_lib "ymd2ord 2024 1 2"]
    by (simp add: p2 datetime_of_def)
qed

text \<open>
  C9 as stated, with the date taken in UTC also for a non-zero offset, fails: 23:00 at
  offset -05:00 on 2024-01-01 is 04:00 UTC on 2024-01-02, yet the event does not match
  the reference date 2024-01-02 and does match 2024-01-01.
\<close>

theorem commence_today_offset_counterexample:
  "fromisoformat plain_lib (replace_Z ''2024-01-01T23:00:00-05:00'')
     = Some (datetime_of 2024 1 1 23 0 0 (Some (- 18000000000))) \<and>
   astimezone_utc plain_lib (datetime_of 2024 1 1 23 0 0 (Some (- 18000000000)))
     = Inr (datetime_of 2024 1 2 4 0 0 (Some 0)) \<and>
   commence_today plain_lib \<lparr>home_team = PStr ''A'', away_team = PStr ''B'',
       commence_time = Some (PStr ''2024-01-01T23:00:00-05:00''), bookmakers = []\<rparr>
     (toordinal (datetime_of 2024 1 2 4 0 0 (Some 0))) = Inr False \<and>
   commence_today plain_lib \<lparr>home_team = PStr ''A'', away_team = PStr ''B'',
       commence_time = Some (PStr ''2024-01-01T23:00:00-05:00''), bookmakers = []\<rparr>
     (ymd2ord 2024 1 1) = Inr True"
  by (simp add: parse_defs calendar_defs today_defs astimezone_utc_def dt_add_def DAY_def
      MAXORDINAL_def Let_def)

section \<open>Properties of event normalisation\<close>

lemma map_event_to_game_SomeD:
  assumes "map_event_to_game L ev book = Inr (Some g)"
  shows "moneyline_part L (home_team ev) (away_team ev) (markets book) = Inr (Some (moneyline g))"
    and "spread_part L (home_team ev) (away_team ev) (markets book) = Inr (Some (spread g))"
    and "total_part L (markets book) = Inr (Some (totals g))"
    and "validate_str L (ko_iso ev) = Inr (kickoff_iso g)"
    and "validate_str L (home_team ev) = Inr (home g)"
    and "validate_str L (away_team ev) = Inr (away g)"
    and "week g = 1"
  using assms
  by (auto simp: map_event_to_game_def split: sum.splits option.splits)




lemmas norm_defs = map_event_to_game_def moneyline_part_def moneyline_of_sides_def
  spread_part_def spread_of_sides_def spread_of_side_def total_part_def total_of_sides_def
  comp_get_def or_else_def falsy_def outcome_name_def dget_def dget_or_def side_outcome_def
  name_startswith_def lower_char_def american_int_def ko_iso_def Let_def plain_lib_def

lemmas sample_defs = sample_markets_def sample_book_def tie_book_def noprice_book_def
  nototals_book_def nopoint_book_def labelled_book_def nohome_event_def
  sample_event_def sample_game_def






lemma moneyline_part_missing:
  "market_missing mkts ''h2h'' \<Longrightarrow> moneyline_part L hm aw mkts = Inr None"
  by (auto simp: market_missing_def moneyline_part_def split: option.splits)

lemma spread_part_missing:
  "market_missing mkts ''spreads'' \<Longrightarrow> spread_part L hm aw mkts = Inr None"
  by (auto simp: market_missing_def spread_part_def split: option.splits)

lemma total_part_missing:
  "market_missing mkts ''totals'' \<Longrightarrow> total_part L mkts = Inr None"
  by (auto simp: market_missing_def total_part_def split: option.splits)

lemma moneyline_part_sides:
  "moneyline_part L hm aw mkts =
     (case h2h_sides hm aw mkts of
        None \<Rightarrow> Inr None
      | Some (h, a) \<Rightarrow> moneyline_of_sides L h a)"
  by (simp add: moneyline_part_def h2h_sides_def Let_def split: option.splits)

lemma spread_part_sides:
  "spread_part L hm aw mkts =
     (case spread_sides hm aw mkts of
        None \<Rightarrow> Inr None
      | Some (sh, sa) \<Rightarrow> spread_of_sides L hm aw sh sa)"
  by (simp add: spread_part_def spread_sides_def split: option.splits)


lemma validate_str_Inl: "validate_str L v = Inl e \<Longrightarrow> e = ValidationError"
  by (cases v) (auto split: option.splits)

lemma moneyline_of_sides_Inl:
  "moneyline_of_sides L h a = Inl e \<longleftrightarrow>
     american_int L (dget h ''price'') = Inl e \<or>
     (\<exists>p. american_int L (dget h ''price'') = Inr p \<and> american_int L (dget a ''price'') = Inl e)"
  by (auto simp: moneyline_of_sides_def split: sum.splits)

lemma spread_of_side_Inl:
  "spread_of_side L fav line side = Inl e \<longleftrightarrow>
     american_int L (dget side ''price'') = Inl e \<or>
     (\<exists>p. american_int L (dget side ''price'') = Inr p \<and> validate_str L fav = Inl e)"
  by (auto simp: spread_of_side_def split: sum.splits)

lemma spread_of_sides_Inl:
  "spread_of_sides L hm aw sh sa = Inl e \<longleftrightarrow>
     py_float L (dget sh ''point'') = Inl e \<or>
     (\<exists>hp. py_float L (dget sh ''point'') = Inr hp \<and>
        (py_float L (dget sa ''point'') = Inl e \<or>
         (\<exists>ap. py_float L (dget sa ''point'') = Inr ap \<and>
            (if fl_less hp ap then spread_of_side L hm (fl_abs hp) sh = Inl e
             else spread_of_side L aw (fl_abs ap) sa = Inl e))))"
  by (auto simp: spread_of_sides_def split: sum.splits)




lemma moneyline_part_Inl_iff:
  "moneyline_part L hm aw mkts = Inl e \<longleftrightarrow>
     (\<exists>h a. h2h_sides hm aw mkts = Some (h, a) \<and>
        (american_int L (dget h ''price'') = Inl e \<or>
         (\<exists>p. american_int L (dget h ''price'') = Inr p) \<and>
           american_int L (dget a ''price'') = Inl e))"
  by (auto simp: moneyline_part_sides moneyline_of_sides_Inl split: option.splits)

lemma spread_part_Inl_iff:
  "spread_part L hm aw mkts = Inl e \<longleftrightarrow>
     (\<exists>sh sa. spread_sides hm aw mkts = Some (sh, sa) \<and>
        (py_float L (dget sh ''point'') = Inl e \<or>
         (\<exists>hp. py_float L (dget sh ''point'') = Inr hp \<and>
            (py_float L (dget sa ''point'') = Inl e \<or>
             (\<exists>ap. py_float L (dget sa ''point'') = Inr ap \<and>
                (if fl_less hp ap
                 then american_int L (dget sh ''price'') = Inl e \<or>
                      (\<exists>p. american_int L (dget sh ''price'') = Inr p) \<and>
                        validate_str L hm = Inl e
                 else american_int L (dget sa ''price'') = Inl e \<or>
                      (\<exists>p. american_int L (dget sa ''price'') = Inr p) \<and>
                        validate_str L aw = Inl e))))))"
  by (auto simp: spread_part_sides spread_of_sides_Inl spread_of_side_Inl split: option.splits)




text \<open>
  C2 (as amended). \<^verbatim>\<open>map_event_to_game\<close> never returns a game when one of the keys
  \<^verbatim>\<open>h2h\<close>, \<^verbatim>\<open>spreads\<close>, \<^verbatim>\<open>totals\<close> is missing: it returns \<^verbatim>\<open>None\<close> or raises, and
  what it raises comes from a market before the missing one. With \<^verbatim>\<open>h2h\<close> missing it
  always returns \<^verbatim>\<open>None\<close>. With \<^verbatim>\<open>spreads\<close> missing it returns \<^verbatim>\<open>None\<close> or raises
  the exception of \<^verbatim>\<open>american_int\<close> on the price of the home or the away outcome of
  \<^verbatim>\<open>h2h\<close>. With \<^verbatim>\<open>totals\<close> missing it returns \<^verbatim>\<open>None\<close> or raises one of: that
  exception of an \<^verbatim>\<open>h2h\<close> price; the exception of \<^verbatim>\<open>float\<close> on the point of the home
  or the away outcome of \<^verbatim>\<open>spreads\<close>; with both points converted, the exception of
  \<^verbatim>\<open>american_int\<close> on the price of the favourite's outcome (the home outcome when its
  point is the smaller one, the away outcome otherwise), or the \<^verbatim>\<open>ValidationError\<close> of
  \<^verbatim>\<open>Spread\<close> when the favourite's team name (\<^verbatim>\<open>home_team\<close> or \<^verbatim>\<open>away_team\<close> of the
  event) is not accepted as a string. A game that is returned has every field set: the
  week is 1, the three strings are the validated values of the event, and the three
  markets are the results of their parts.
\<close>

theorem map_event_incomplete:
  "(market_missing (markets book) ''h2h'' \<longrightarrow> map_event_to_game L ev book = Inr None) \<and>
   (market_missing (markets book) ''spreads'' \<longrightarrow>
      map_event_to_game L ev book = Inr None \<or>
      (\<exists>e h a. map_event_to_game L ev book = Inl e \<and>
         h2h_sides (home_team ev) (away_team ev) (markets book) = Some (h, a) \<and>
         (american_int L (dget h ''price'') = Inl e \<or>
          american_int L (dget a ''price'') = Inl e))) \<and>
   (market_missing (markets book) ''totals'' \<longrightarrow>
      map_event_to_game L ev book = Inr None \<or>
      (\<exists>e h a. map_event_to_game L ev book = Inl e \<and>
         h2h_sides (home_team ev) (away_team ev) (markets book) = Some (h, a) \<and>
         (american_int L (dget h ''price'') = Inl e \<or>
          american_int L (dget a ''price'') = Inl e)) \<or>
      (\<exists>e sh sa. map_event_to_game L ev book = Inl e \<and>
         spread_sides (home_team ev) (away_team ev) (markets book) = Some (sh, sa) \<and>
         (py_float L (dget sh ''point'') = Inl e \<or>
          py_float L (dget sa ''point'') = Inl e \<or>
          (\<exists>hp ap. py_float L (dget sh ''point'') = Inr hp \<and>
             py_float L (dget sa ''point'') = Inr ap \<and>
             (if fl_less hp ap
              then american_int L (dget sh ''price'') = Inl e \<or>
                   e = ValidationError \<and> validate_str L (home_team ev) = Inl ValidationError
              else american_int L (dget sa ''price'') = Inl e \<or>
                   e = ValidationError \<and> validate_str L (away_team ev) = Inl ValidationError))))) \<and>
   (\<forall>g. map_event_to_game L ev book = Inr (Some g) \<longrightarrow>
      week g = 1 \<and>
      validate_str L (ko_iso ev) = Inr (kickoff_iso g) \<and>
      validate_str L (home_team ev) = Inr (home g) \<and>
      validate_str L (away_team ev) = Inr (away g) \<and>
      moneyline_part L (home_team ev) (away_team ev) (markets book) = Inr (Some (moneyline g)) \<and>
      spread_part L (home_team ev) (away_team ev) (markets book) = Inr (Some (spread g)) \<and>
      total_part L (markets book) = Inr (Some (totals g)) \<and>
      \<not> market_missing (markets book) ''h2h'' \<and>
      \<not> market_missing (markets book) ''spreads'' \<and>
      \<not> market_missing (markets book) ''totals'')"
proof -
  let ?m = "map_event_to_game L ev book"
  let ?ml = "\<lambda>e. \<exists>h a. h2h_sides (home_team ev) (away_team ev) (markets book) = Some (h, a) \<and>
         (american_int L (dget h ''price'') = Inl e \<or>
          american_int L (dget a ''price'') = Inl e)"
  let ?sp = "\<lambda>e. \<exists>sh sa.
         spread_sides (home_team ev) (away_team ev) (markets book) = Some (sh, sa) \<and>
         (py_float L (dget sh ''point'') = Inl e \<or>
          py_float L (dget sa ''point'') = Inl e \<or>
          (\<exists>hp ap. py_float L (dget sh ''point'') = Inr hp \<and>
             py_float L (dget sa ''point'') = Inr ap \<and>
             (if fl_less hp ap
              then american_int L (dget sh ''price'') = Inl e \<or>
                   e = ValidationError \<and> validate_str L (home_team ev) = Inl ValidationError
              else american_int L (dget sa ''price'') = Inl e \<or>
                   e = ValidationError \<and> validate_str L (away_team ev) = Inl ValidationError)))"
  have ml: "?ml e"
    if "moneyline_part L (home_team ev) (away_team ev) (markets book) = Inl e" for e
    using that unfolding moneyline_part_Inl_iff by blast
  have sp: "?sp e"
    if "spread_part L (home_team ev) (away_team ev) (markets book) = Inl e" for e
  proof -
    from that obtain sh sa where
      s: "spread_sides (home_team ev) (away_team ev) (markets book) = Some (sh, sa)"
      and r: "py_float L (dget sh ''point'') = Inl e \<or>
         (\<exists>hp. py_float L (dget sh ''point'') = Inr hp \<and>
            (py_float L (dget sa ''point'') = Inl e \<or>
             (\<exists>ap. py_float L (dget sa ''point'') = Inr ap \<and>
                (if fl_less hp ap
                 then american_int L (dget sh ''price'') = Inl e \<or>
                      (\<exists>p. american_int L (dget sh ''price'') = Inr p) \<and>
                        validate_str L (home_team ev) = Inl e
                 else american_int L (dget sa ''price'') = Inl e \<or>
                      (\<exists>p. american_int L (dget sa ''price'') = Inr p) \<and>
                        validate_str L (away_team ev) = Inl e))))"
      unfolding spread_part_Inl_iff by blast
    have v: "e = ValidationError" if "validate_str L v = Inl e" for v
      using that by (rule validate_str_Inl)
    from r have "py_float L (dget sh ''point'') = Inl e \<or>
          py_float L (dget sa ''point'') = Inl e \<or>
          (\<exists>hp ap. py_float L (dget sh ''point'') = Inr hp \<and>
             py_float L (dget sa ''point'') = Inr ap \<and>
             (if fl_less hp ap
              then american_int L (dget sh ''price'') = Inl e \<or>
                   e = ValidationError \<and> validate_str L (home_team ev) = Inl ValidationError
              else american_int L (dget sa ''price'') = Inl e \<or>
                   e = ValidationError \<and> validate_str L (away_team ev) = Inl ValidationError))"
      using v by (auto split: if_splits)
    with s show ?thesis by blast
  qed
  have h2h: "?m = Inr None" if "market_missing (markets book) ''h2h''"
    using that by (simp add: map_event_to_game_def moneyline_part_missing)
  have spreads0: "?m = Inr None \<or>
      (\<exists>e. ?m = Inl e \<and>
           moneyline_part L (home_team ev) (away_team ev) (markets book) = Inl e)"
    if "market_missing (markets book) ''spreads''"
    using that
    by (simp add: map_event_to_game_def spread_part_missing split: sum.splits option.splits)
  have spreads: "?m = Inr None \<or> (\<exists>e. ?m = Inl e \<and> ?ml e)"
    if "market_missing (markets book) ''spreads''"
    using spreads0 [OF that] ml by blast
  have tots0: "?m = Inr None \<or>
      (\<exists>e. ?m = Inl e \<and>
           (moneyline_part L (home_team ev) (away_team ev) (markets book) = Inl e \<or>
            spread_part L (home_team ev) (away_team ev) (markets book) = Inl e))"
    if "market_missing (markets book) ''totals''"
    using that
    by (simp add: map_event_to_game_def total_part_missing split: sum.splits option.splits)
  have tots: "?m = Inr None \<or> (\<exists>e. ?m = Inl e \<and> ?ml e) \<or> (\<exists>e. ?m = Inl e \<and> ?sp e)"
    if "market_missing (markets book) ''totals''"
    using tots0 [OF that] ml sp by blast
  have full: "week g = 1 \<and>
      validate_str L (ko_iso ev) = Inr (kickoff_iso g) \<and>
      validate_str L (home_team ev) = Inr (home g) \<and>
      validate_str L (away_team ev) = Inr (away g) \<and>
      moneyline_part L (home_team ev) (away_team ev) (markets book) = Inr (Some (moneyline g)) \<and>
      spread_part L (home_team ev) (away_team ev) (markets book) = Inr (Some (spread g)) \<and>
      total_part L (markets book) = Inr (Some (totals g)) \<and>
      \<not> market_missing (markets book) ''h2h'' \<and>
      \<not> market_missing (markets book) ''spreads'' \<and>
      \<not> market_missing (markets book) ''totals''"
    if g: "?m = Inr (Some g)" for g
  proof -
    note d = map_event_to_game_SomeD [OF g]
    have "\<not> market_missing (markets book) ''h2h''"
      using d(1) moneyline_part_missing by fastforce
    moreover have "\<not> market_missing (markets book) ''spreads''"
      using d(2) spread_part_missing by fastforce
    moreover have "\<not> market_missing (markets book) ''totals''"
      using d(3) total_part_missing by fastforce
    ultimately show ?thesis
      using d by simp
  qed
  have A: "market_missing (markets book) ''h2h'' \<longrightarrow> ?m = Inr None"
    using h2h by blast
  have B: "market_missing (markets book) ''spreads'' \<longrightarrow>
      ?m = Inr None \<or> (\<exists>e h a. ?m = Inl e \<and>
         h2h_sides (home_team ev) (away_team ev) (markets book) = Some (h, a) \<and>
         (american_int L (dget h ''price'') = Inl e \<or>
          american_int L (dget a ''price'') = Inl e))"
    using spreads by blast
  have C: "market_missing (markets book) ''totals'' \<longrightarrow>
      ?m = Inr None \<or>
      (\<exists>e h a. ?m = Inl e \<and>
         h2h_sides (home_team ev) (away_team ev) (markets book) = Some (h, a) \<and>
         (american_int L (dget h ''price'') = Inl e \<or>
          american_int L (dget a ''price'') = Inl e)) \<or>
      (\<exists>e sh sa. ?m = Inl e \<and>
         spread_sides (home_team ev) (away_team ev) (markets book) = Some (sh, sa) \<and>
         (py_float L (dget sh ''point'') = Inl e \<or>
          py_float L (dget sa ''point'') = Inl e \<or>
          (\<exists>hp ap. py_float L (dget sh ''point'') = Inr hp \<and>
             py_float L (dget sa ''point'') = Inr ap \<and>
             (if fl_less hp ap
              then american_int L (dget sh ''price'') = Inl e \<or>
                   e = ValidationError \<and> validate_str L (home_team ev) = Inl ValidationError
              else american_int L (dget sa ''price'') = Inl e \<or>
                   e = ValidationError \<and> validate_str L (away_team ev) = Inl ValidationError))))"
    using tots by blast
  have D: "\<forall>g. ?m = Inr (Some g) \<longrightarrow>
      week g = 1 \<and>
      validate_str L (ko_iso ev) = Inr (kickoff_iso g) \<and>
      validate_str L (home_team ev) = Inr (home g) \<and>
      validate_str L (away_team ev) = Inr (away g) \<and>
      moneyline_part L (home_team ev) (away_team ev) (markets book) = Inr (Some (moneyline g)) \<and>
      spread_part L (home_team ev) (away_team ev) (markets book) = Inr (Some (spread g)) \<and>
      total_part L (markets book) = Inr (Some (totals g)) \<and>
      \<not> market_missing (markets book) ''h2h'' \<and>
      \<not> market_missing (markets book) ''spreads'' \<and>
      \<not> market_missing (markets book) ''totals''"
    using full by blast
  show ?thesis
    using A B C D by (intro conjI)
qed

text \<open>
  A bookmaker without totals and one without any market give \<^verbatim>\<open>None\<close>; the
  sample bookmaker gives the whole game.
\<close>

theorem map_event_incomplete_witness:
  "market_missing (markets nototals_book) ''totals'' \<and>
   map_event_to_game plain_lib (sample_event ''2024-01-07T18:00:00Z'' [nototals_book]) nototals_book
     = Inr None \<and>
   market_missing [] ''h2h'' \<and>
   map_event_to_game plain_lib (sample_event ''2024-01-07T18:00:00Z'' [])
     \<lparr>title = PStr ''DraftKings'', markets = []\<rparr> = Inr None \<and>
   map_event_to_game plain_lib (sample_event ''2024-01-07T18:00:00Z'' [sample_book]) sample_book
     = Inr (Some (sample_game ''2024-01-07T18:00:00Z''
          \<lparr>favorite = ''A'', sp_line = Finite (7 / 2), price = - 110\<rparr>))"
proof -
  have m: "market_missing (markets nototals_book) ''totals''" "market_missing [] ''h2h''"
    by (simp_all add: market_missing_def comp_get_def sample_defs)
  have g: "map_event_to_game plain_lib (sample_event ''2024-01-07T18:00:00Z'' [sample_book]) sample_book
     = Inr (Some (sample_game ''2024-01-07T18:00:00Z''
          \<lparr>favorite = ''A'', sp_line = Finite (7 / 2), price = - 110\<rparr>))"
    by (simp add: norm_defs sample_defs)
  have n: "map_event_to_game plain_lib (sample_event ''2024-01-07T18:00:00Z'' [nototals_book]) nototals_book
     = Inr None"
    by (simp add: norm_defs sample_defs)
  show ?thesis
    using m g n
      map_event_incomplete [of nototals_book plain_lib "sample_event ''2024-01-07T18:00:00Z'' [nototals_book]"]
      map_event_incomplete [of "\<lparr>title = PStr ''DraftKings'', markets = []\<rparr>" plain_lib
         "sample_event ''2024-01-07T18:00:00Z'' []"]
    by simp
qed

text \<open>
  C2 as stated fails: with the totals market missing, the call does not return
  \<^verbatim>\<open>None\<close> but raises \<^verbatim>\<open>TypeError\<close> when the home outcome of the moneyline has no
  price, and \<^verbatim>\<open>ValidationError\<close> when the event has no \<^verbatim>\<open>home_team\<close> and the outcomes
  labelled \<^verbatim>\<open>Home\<close> make it the favourite.
\<close>

theorem map_event_incomplete_counterexample:
  "market_missing (markets noprice_book) ''totals'' \<and>
   map_event_to_game plain_lib (sample_event ''2024-01-07T18:00:00Z'' [noprice_book]) noprice_book
     = Inl TypeError \<and>
   market_missing (markets labelled_book) ''totals'' \<and>
   map_event_to_game plain_lib (nohome_event ''2024-01-07T18:00:00Z'' [labelled_book]) labelled_book
     = Inl ValidationError"
  by (simp add: market_missing_def norm_defs sample_defs)

section \<open>Properties of the routes\<close>



























lemma sample_normalised:
  "normalised plain_lib (sample_event t [sample_book])
     = Some (sample_game t \<lparr>favorite = ''A'', sp_line = Finite (7 / 2), price = - 110\<rparr>)"
  "normalised plain_lib (sample_event t [tie_book])
     = Some (sample_game t \<lparr>favorite = ''B'', sp_line = Finite 0, price = - 108\<rparr>)"
  by (simp_all add: normalised_def choose_book_def BOOK_PRIORITY_def norm_defs sample_defs)






end
